theory Spec2Isabelle
  imports Complex_Main
begin

chapter \<open>The model\<close>

section \<open>JavaScript values\<close>

text \<open>
  The expression engine of the survey library works on untyped JavaScript values
  (\<^verbatim>\<open>any\<close>). The values modelled here are the ones a survey answer or an expression
  literal can be: \<^verbatim>\<open>undefined\<close>, \<^verbatim>\<open>null\<close>, booleans, numbers, strings and
  (nested) arrays of these. Plain objects and dates are outside the model.

  A number is \<^verbatim>\<open>NaN\<close>, an infinity, or a finite value, which is kept as the exact
  real number: rounding to binary64 and the sign of zero are not modelled.
\<close>

datatype jsnum = NaN | PosInf | NegInf | Fin real

datatype jsval =
    JUndefined
  | JNull
  | JBool bool
  | JNum jsnum
  | JStr string
  | JArr "jsval list"

text \<open>\<^verbatim>\<open>!!v\<close>: every value is truthy but \<^verbatim>\<open>undefined\<close>, \<^verbatim>\<open>null\<close>,
  \<^verbatim>\<open>false\<close>, \<^verbatim>\<open>0\<close>, \<^verbatim>\<open>NaN\<close> and the empty string. An array is an object, so
  it is truthy even when it is empty.\<close>

fun truthy :: "jsval \<Rightarrow> bool" where
  "truthy JUndefined = False"
| "truthy JNull = False"
| "truthy (JBool b) = b"
| "truthy (JNum n) = (n \<noteq> NaN \<and> n \<noteq> Fin 0)"
| "truthy (JStr s) = (s \<noteq> [])"
| "truthy (JArr xs) = True"

text \<open>\<^verbatim>\<open>v == null\<close> holds of \<^verbatim>\<open>null\<close> and \<^verbatim>\<open>undefined\<close> only.\<close>

fun looseNull :: "jsval \<Rightarrow> bool" where
  "looseNull JUndefined = True"
| "looseNull JNull = True"
| "looseNull v = False"

section \<open>Strings and the number conversions of the language\<close>

text \<open>
  Strings are lists of characters; the case conversion and the white space below are
  the ASCII ones. \<^verbatim>\<open>s.indexOf(p)\<close> is the index of the first occurrence of \<^verbatim>\<open>p\<close>
  in \<^verbatim>\<open>s\<close>, or \<^verbatim>\<open>-1\<close>.
\<close>

fun indexOf_from :: "string \<Rightarrow> string \<Rightarrow> int \<Rightarrow> int" where
  "indexOf_from [] p i = (if p = [] then i else - 1)"
| "indexOf_from (c # cs) p i =
     (if take (length p) (c # cs) = p then i else indexOf_from cs p (i + 1))"

definition indexOf :: "string \<Rightarrow> string \<Rightarrow> int" where
  "indexOf s p = indexOf_from s p 0"

definition lowerChar :: "char \<Rightarrow> char" where
  "lowerChar c =
     (let n = (of_char c :: nat) in if 65 \<le> n \<and> n \<le> 90 then char_of (n + 32) else c)"

definition toLowerCase :: "string \<Rightarrow> string" where
  "toLowerCase s = map lowerChar s"

definition isWhiteSpace :: "char \<Rightarrow> bool" where
  "isWhiteSpace c = (c \<in> set [CHR 0x09, CHR 0x0A, CHR 0x0B, CHR 0x0C, CHR 0x0D, CHR '' ''])"

definition trim :: "string \<Rightarrow> string" where
  "trim s = rev (dropWhile isWhiteSpace (rev (dropWhile isWhiteSpace s)))"

text \<open>The value of a digit or letter as \<^verbatim>\<open>parseInt\<close> reads it.\<close>

definition digitValue :: "char \<Rightarrow> nat option" where
  "digitValue c =
     (let n = (of_char c :: nat) in
      if 48 \<le> n \<and> n \<le> 57 then Some (n - 48)
      else if 97 \<le> n \<and> n \<le> 122 then Some (n - 87)
      else if 65 \<le> n \<and> n \<le> 90 then Some (n - 55)
      else None)"

definition isRadixDigit :: "nat \<Rightarrow> char \<Rightarrow> bool" where
  "isRadixDigit radix c = (case digitValue c of Some d \<Rightarrow> d < radix | None \<Rightarrow> False)"

definition radixValue :: "nat \<Rightarrow> string \<Rightarrow> nat" where
  "radixValue radix s =
     foldl (\<lambda>acc c. acc * radix + (case digitValue c of Some d \<Rightarrow> d | None \<Rightarrow> 0)) 0 s"

text \<open>
  A real number that rounds to a binary64 beyond the largest finite one becomes an
  infinity: the bound is the midpoint between the largest finite binary64,
  \<open>2^1024 - 2^971\<close>, and \<open>2^1024\<close>.
\<close>

definition overflowBound :: real where
  "overflowBound = 2 ^ 1024 - 2 ^ 970"

definition toDouble :: "real \<Rightarrow> jsnum" where
  "toDouble r =
     (if overflowBound \<le> r then PosInf
      else if r \<le> - overflowBound then NegInf
      else Fin r)"

fun negate_num :: "jsnum \<Rightarrow> jsnum" where
  "negate_num NaN = NaN"
| "negate_num PosInf = NegInf"
| "negate_num NegInf = PosInf"
| "negate_num (Fin r) = Fin (- r)"

fun isNaN :: "jsnum \<Rightarrow> bool" where
  "isNaN NaN = True"
| "isNaN n = False"

fun isFinite :: "jsnum \<Rightarrow> bool" where
  "isFinite (Fin r) = True"
| "isFinite n = False"

text \<open>
  The numeric literals of the language's string grammar. \<open>scanExponent\<close> reads an
  exponent part (\<^verbatim>\<open>e\<close> or \<^verbatim>\<open>E\<close>, a sign, digits) when there is one;
  \<open>scanDecimal\<close> reads the longest unsigned decimal literal a string starts with
  (\<^verbatim>\<open>12\<close>, \<^verbatim>\<open>12.\<close>, \<^verbatim>\<open>12.5\<close>, \<^verbatim>\<open>.5\<close>, each with an exponent or without) and
  returns its value and the rest of the string; \<open>scanSigned\<close> allows a sign and
  \<^verbatim>\<open>Infinity\<close>.
\<close>

definition scanExponent :: "string \<Rightarrow> int \<times> string" where
  "scanExponent s =
     (case s of
        [] \<Rightarrow> (0, s)
      | c # t \<Rightarrow>
          if c = CHR ''e'' \<or> c = CHR ''E'' then
            (let (minus, u) =
                   (case t of
                      [] \<Rightarrow> (False, t)
                    | d # u \<Rightarrow>
                        if d = CHR ''-'' then (True, u)
                        else if d = CHR ''+'' then (False, u)
                        else (False, t));
                 ds = takeWhile (isRadixDigit 10) u
             in if ds = [] then (0, s)
                else (if minus then - int (radixValue 10 ds) else int (radixValue 10 ds),
                      dropWhile (isRadixDigit 10) u))
          else (0, s))"

definition scanDecimal :: "string \<Rightarrow> (real \<times> string) option" where
  "scanDecimal s =
     (let ip = takeWhile (isRadixDigit 10) s;
          r1 = dropWhile (isRadixDigit 10) s;
          (fp, r2) =
            (case r1 of
               [] \<Rightarrow> ([], r1)
             | c # t \<Rightarrow>
                 if c = CHR ''.''
                 then (takeWhile (isRadixDigit 10) t, dropWhile (isRadixDigit 10) t)
                 else ([], r1))
      in if ip = [] \<and> fp = [] then None
         else
           (let (e, r3) = scanExponent r2;
                m = real (radixValue 10 (ip @ fp)) / 10 ^ length fp
            in Some (if 0 \<le> e then m * 10 ^ nat e else m / 10 ^ nat (- e), r3)))"

definition scanUnsigned :: "string \<Rightarrow> (jsnum \<times> string) option" where
  "scanUnsigned s =
     (if take 8 s = ''Infinity'' then Some (PosInf, drop 8 s)
      else map_option (\<lambda>(r, t). (toDouble r, t)) (scanDecimal s))"

definition scanSigned :: "string \<Rightarrow> (jsnum \<times> string) option" where
  "scanSigned s =
     (case s of
        [] \<Rightarrow> None
      | c # t \<Rightarrow>
          if c = CHR ''-'' then map_option (\<lambda>(n, u). (negate_num n, u)) (scanUnsigned t)
          else if c = CHR ''+'' then scanUnsigned t
          else scanUnsigned s)"

text \<open>The prefix of a hexadecimal, octal or binary integer literal, with its radix.\<close>

definition radixPrefix :: "string \<Rightarrow> (nat \<times> string) option" where
  "radixPrefix s =
     (case s of
        a # b # t \<Rightarrow>
          if a \<noteq> CHR ''0'' then None
          else if b = CHR ''x'' \<or> b = CHR ''X'' then Some (16, t)
          else if b = CHR ''o'' \<or> b = CHR ''O'' then Some (8, t)
          else if b = CHR ''b'' \<or> b = CHR ''B'' then Some (2, t)
          else None
      | _ \<Rightarrow> None)"

text \<open>
  \<^verbatim>\<open>Number(s)\<close> on a string: white space around the literal is dropped, the empty
  string is \<^verbatim>\<open>0\<close>, and the whole of what is left must be one literal.
\<close>

definition StringToNumber :: "string \<Rightarrow> jsnum" where
  "StringToNumber s =
     (let t = trim s in
      if t = [] then Fin 0
      else
        (case radixPrefix t of
           Some (radix, ds) \<Rightarrow>
             if ds \<noteq> [] \<and> list_all (isRadixDigit radix) ds
             then toDouble (real (radixValue radix ds))
             else NaN
         | None \<Rightarrow>
             (case scanSigned t of
                Some (n, []) \<Rightarrow> n
              | _ \<Rightarrow> NaN)))"

text \<open>
  \<^verbatim>\<open>parseFloat(s)\<close>: leading white space is dropped and the longest decimal literal
  the string starts with is read; what follows it is ignored.
\<close>

definition parseFloat :: "string \<Rightarrow> jsnum" where
  "parseFloat s =
     (case scanSigned (dropWhile isWhiteSpace s) of
        Some (n, rest) \<Rightarrow> n
      | None \<Rightarrow> NaN)"

text \<open>
  \<^verbatim>\<open>parseInt(s)\<close> with no radix: a sign, then radix 16 after \<^verbatim>\<open>0x\<close> or \<^verbatim>\<open>0X\<close>
  and radix 10 otherwise, then the longest run of digits of the radix.
\<close>

definition parseInt :: "string \<Rightarrow> jsnum" where
  "parseInt s =
     (let t = dropWhile isWhiteSpace s;
          (minus, u) =
            (case t of
               [] \<Rightarrow> (False, t)
             | c # r \<Rightarrow>
                 if c = CHR ''-'' then (True, r)
                 else if c = CHR ''+'' then (False, r)
                 else (False, t));
          (radix, v) =
            (case u of
               a # b # r \<Rightarrow>
                 if a = CHR ''0'' \<and> (b = CHR ''x'' \<or> b = CHR ''X'') then (16, r) else (10, u)
             | _ \<Rightarrow> (10, u));
          ds = takeWhile (isRadixDigit radix) v
      in if ds = [] then NaN
         else toDouble (if minus then - real (radixValue radix ds) else real (radixValue radix ds)))"

section \<open>Conversions and operators of the language\<close>

text \<open>
  \<^verbatim>\<open>String(n)\<close> for a number. The digits are those JavaScript prints for an integer
  below \<open>10^21\<close> and for a decimal fraction it prints in full; the exponent notation
  and the shortest digits that identify a binary64 are not modelled (a longer
  fraction is cut after 17 digits).
\<close>

function natToString :: "nat \<Rightarrow> string" where
  "natToString n =
     (if n < 10 then [char_of (48 + n)]
      else natToString (n div 10) @ [char_of (48 + n mod 10)])"
  by pat_completeness auto
termination
  by (relation "measure (\<lambda>n. n)") auto

fun fracDigits :: "nat \<Rightarrow> real \<Rightarrow> string" where
  "fracDigits 0 r = []"
| "fracDigits (Suc k) r =
     (if r = 0 then []
      else (let d = nat \<lfloor>r * 10\<rfloor> in char_of (48 + d) # fracDigits k (r * 10 - real d)))"

definition numToString :: "jsnum \<Rightarrow> string" where
  "numToString n =
     (case n of
        NaN \<Rightarrow> ''NaN''
      | PosInf \<Rightarrow> ''Infinity''
      | NegInf \<Rightarrow> ''-Infinity''
      | Fin r \<Rightarrow>
          (let a = \<bar>r\<bar>; i = nat \<lfloor>a\<rfloor>; f = a - real i
           in (if r < 0 then ''-'' else []) @ natToString i @
              (if f = 0 then [] else ''.'' @ fracDigits 17 f)))"

fun joinComma :: "string list \<Rightarrow> string" where
  "joinComma [] = []"
| "joinComma [s] = s"
| "joinComma (s # t) = s @ '','' @ joinComma t"

text \<open>
  \<^verbatim>\<open>String(v)\<close>, which is also \<^verbatim>\<open>v.toString()\<close> where that call is defined. An array
  is its elements joined by commas, \<^verbatim>\<open>null\<close> and \<^verbatim>\<open>undefined\<close> elements being
  empty.
\<close>

fun toStr :: "jsval \<Rightarrow> string" where
  "toStr JUndefined = ''undefined''"
| "toStr JNull = ''null''"
| "toStr (JBool b) = (if b then ''true'' else ''false'')"
| "toStr (JNum n) = numToString n"
| "toStr (JStr s) = s"
| "toStr (JArr xs) = joinComma (map (\<lambda>x. if looseNull x then [] else toStr x) xs)"

text \<open>\<^verbatim>\<open>Number(v)\<close>; an array is converted through its string.\<close>

fun toNum :: "jsval \<Rightarrow> jsnum" where
  "toNum JUndefined = NaN"
| "toNum JNull = Fin 0"
| "toNum (JBool b) = Fin (if b then 1 else 0)"
| "toNum (JNum n) = n"
| "toNum (JStr s) = StringToNumber s"
| "toNum (JArr xs) = StringToNumber (toStr (JArr xs))"

fun toPrimitive :: "jsval \<Rightarrow> jsval" where
  "toPrimitive (JArr xs) = JStr (toStr (JArr xs))"
| "toPrimitive v = v"

fun isString :: "jsval \<Rightarrow> bool" where
  "isString (JStr s) = True"
| "isString v = False"

fun isArray :: "jsval \<Rightarrow> bool" where
  "isArray (JArr xs) = True"
| "isArray v = False"

text \<open>Arithmetic on numbers, with the language's rules for \<^verbatim>\<open>NaN\<close> and the infinities.\<close>

fun num_sign :: "jsnum \<Rightarrow> real" where
  "num_sign NaN = 0"
| "num_sign PosInf = 1"
| "num_sign NegInf = - 1"
| "num_sign (Fin r) = sgn r"

definition signedInf :: "real \<Rightarrow> jsnum" where
  "signedInf s = (if s < 0 then NegInf else PosInf)"

fun num_add :: "jsnum \<Rightarrow> jsnum \<Rightarrow> jsnum" where
  "num_add NaN y = NaN"
| "num_add x NaN = NaN"
| "num_add (Fin a) (Fin b) = toDouble (a + b)"
| "num_add (Fin a) y = y"
| "num_add x (Fin b) = x"
| "num_add x y = (if x = y then x else NaN)"

definition num_sub :: "jsnum \<Rightarrow> jsnum \<Rightarrow> jsnum" where
  "num_sub x y = num_add x (negate_num y)"

fun num_mul :: "jsnum \<Rightarrow> jsnum \<Rightarrow> jsnum" where
  "num_mul NaN y = NaN"
| "num_mul x NaN = NaN"
| "num_mul (Fin a) (Fin b) = toDouble (a * b)"
| "num_mul x y =
     (if num_sign x * num_sign y = 0 then NaN else signedInf (num_sign x * num_sign y))"

fun num_div :: "jsnum \<Rightarrow> jsnum \<Rightarrow> jsnum" where
  "num_div NaN y = NaN"
| "num_div x NaN = NaN"
| "num_div (Fin a) (Fin b) =
     (if b = 0 then (if a = 0 then NaN else signedInf a) else toDouble (a / b))"
| "num_div (Fin a) y = Fin 0"
| "num_div x (Fin b) = signedInf (num_sign x * (if b < 0 then - 1 else 1))"
| "num_div x y = NaN"

text \<open>\<^verbatim>\<open>a % b\<close>: the remainder has the sign of the dividend.\<close>

fun num_mod :: "jsnum \<Rightarrow> jsnum \<Rightarrow> jsnum" where
  "num_mod NaN y = NaN"
| "num_mod x NaN = NaN"
| "num_mod (Fin a) (Fin b) =
     (if b = 0 then NaN
      else Fin (a - b * of_int (if 0 \<le> a / b then \<lfloor>a / b\<rfloor> else \<lceil>a / b\<rceil>)))"
| "num_mod (Fin a) y = Fin a"
| "num_mod x y = NaN"

definition isInteger :: "real \<Rightarrow> bool" where
  "isInteger r = (of_int \<lfloor>r\<rfloor> = r)"

text \<open>\<^verbatim>\<open>Math.pow(x, y)\<close>.\<close>

fun num_pow :: "jsnum \<Rightarrow> jsnum \<Rightarrow> jsnum" where
  "num_pow x NaN = NaN"
| "num_pow x (Fin b) =
     (if b = 0 then Fin 1
      else (case x of
              NaN \<Rightarrow> NaN
            | PosInf \<Rightarrow> (if 0 < b then PosInf else Fin 0)
            | NegInf \<Rightarrow>
                (if b < 0 then Fin 0
                 else if isInteger b \<and> odd \<lfloor>b\<rfloor> then NegInf else PosInf)
            | Fin a \<Rightarrow>
                (if a = 0 then (if 0 < b then Fin 0 else PosInf)
                 else if isInteger b then toDouble (power_int a \<lfloor>b\<rfloor>)
                 else if a < 0 then NaN
                 else toDouble (a powr b))))"
| "num_pow x PosInf =
     (case x of
        NaN \<Rightarrow> NaN
      | Fin a \<Rightarrow> (if \<bar>a\<bar> = 1 then NaN else if \<bar>a\<bar> < 1 then Fin 0 else PosInf)
      | _ \<Rightarrow> PosInf)"
| "num_pow x NegInf =
     (case x of
        NaN \<Rightarrow> NaN
      | Fin a \<Rightarrow> (if \<bar>a\<bar> = 1 then NaN else if \<bar>a\<bar> < 1 then PosInf else Fin 0)
      | _ \<Rightarrow> Fin 0)"

text \<open>
  The operators on arbitrary values. \<^verbatim>\<open>a + b\<close> concatenates when an operand is a
  string (or an array, which becomes its string); the other arithmetic operators
  convert both operands to numbers.
\<close>

definition js_add :: "jsval \<Rightarrow> jsval \<Rightarrow> jsval" where
  "js_add a b =
     (let p = toPrimitive a; q = toPrimitive b
      in if isString p \<or> isString q then JStr (toStr p @ toStr q)
         else JNum (num_add (toNum p) (toNum q)))"

definition js_sub :: "jsval \<Rightarrow> jsval \<Rightarrow> jsval" where
  "js_sub a b = JNum (num_sub (toNum a) (toNum b))"

definition js_mul :: "jsval \<Rightarrow> jsval \<Rightarrow> jsval" where
  "js_mul a b = JNum (num_mul (toNum a) (toNum b))"

definition js_div :: "jsval \<Rightarrow> jsval \<Rightarrow> jsval" where
  "js_div a b = JNum (num_div (toNum a) (toNum b))"

definition js_mod :: "jsval \<Rightarrow> jsval \<Rightarrow> jsval" where
  "js_mod a b = JNum (num_mod (toNum a) (toNum b))"

definition js_pow :: "jsval \<Rightarrow> jsval \<Rightarrow> jsval" where
  "js_pow a b = JNum (num_pow (toNum a) (toNum b))"

text \<open>\<^verbatim>\<open>a && b\<close> and \<^verbatim>\<open>a || b\<close> return one of their operands.\<close>

definition js_and :: "jsval \<Rightarrow> jsval \<Rightarrow> jsval" where
  "js_and a b = (if truthy a then b else a)"

definition js_or :: "jsval \<Rightarrow> jsval \<Rightarrow> jsval" where
  "js_or a b = (if truthy a then a else b)"

text \<open>
  The relational comparison \<^verbatim>\<open>a < b\<close>: two strings are compared character by
  character, any other pair as numbers; the result is undefined (\<open>None\<close>) when one
  side is \<^verbatim>\<open>NaN\<close>. The four operators are read off it.
\<close>

fun str_lt :: "string \<Rightarrow> string \<Rightarrow> bool" where
  "str_lt [] [] = False"
| "str_lt [] (y # ys) = True"
| "str_lt (x # xs) [] = False"
| "str_lt (x # xs) (y # ys) =
     ((of_char x :: nat) < of_char y \<or> (x = y \<and> str_lt xs ys))"

fun num_lt :: "jsnum \<Rightarrow> jsnum \<Rightarrow> bool option" where
  "num_lt NaN y = None"
| "num_lt x NaN = None"
| "num_lt (Fin a) (Fin b) = Some (a < b)"
| "num_lt x PosInf = Some (x \<noteq> PosInf)"
| "num_lt NegInf y = Some (y \<noteq> NegInf)"
| "num_lt x y = Some False"

definition js_lt :: "jsval \<Rightarrow> jsval \<Rightarrow> bool option" where
  "js_lt a b =
     (case (toPrimitive a, toPrimitive b) of
        (JStr s, JStr t) \<Rightarrow> Some (str_lt s t)
      | (p, q) \<Rightarrow> num_lt (toNum p) (toNum q))"

section \<open>Literals and their coercion (expressions.ts, class Const)\<close>

text \<open>
  \<^verbatim>\<open>isBooleanValue(value)\<close> and \<^verbatim>\<open>isNumericValue(value)\<close> are called on a non-empty
  string only. \<^verbatim>\<open>isNumericValue\<close> refuses a string with a \<^verbatim>\<open>-\<close>, \<^verbatim>\<open>*\<close>,
  \<^verbatim>\<open>^\<close>, \<^verbatim>\<open>/\<close> or \<^verbatim>\<open>%\<close> anywhere (\<^verbatim>\<open>indexOf > -1\<close>) and one whose first
  \<^verbatim>\<open>+\<close> is past index 1 (\<^verbatim>\<open>indexOf > 1\<close>).
\<close>

definition isBooleanValue :: "string \<Rightarrow> bool" where
  "isBooleanValue s =
     (s \<noteq> [] \<and> (toLowerCase s = ''true'' \<or> toLowerCase s = ''false''))"

definition isNumericValue :: "string \<Rightarrow> bool" where
  "isNumericValue s =
     (if s \<noteq> [] \<and>
         (indexOf s ''-'' > - 1 \<or> indexOf s ''+'' > 1 \<or> indexOf s ''*'' > - 1 \<or>
          indexOf s ''^'' > - 1 \<or> indexOf s ''/'' > - 1 \<or> indexOf s ''%'' > - 1)
      then False
      else (let val = StringToNumber s in if isNaN val then False else isFinite val))"

text \<open>
  \<^verbatim>\<open>getCorrectValue(value)\<close>: a falsy value and a value that is not a string are
  returned as they are.
\<close>

definition getCorrectValue :: "jsval \<Rightarrow> jsval" where
  "getCorrectValue v =
     (case v of
        JStr s \<Rightarrow>
          if \<not> truthy v then v
          else if isBooleanValue s then JBool (toLowerCase s = ''true'')
          else if isNumericValue s then
            (if indexOf s ''0x'' = 0 then JNum (parseInt s) else JNum (parseFloat s))
          else v
      | _ \<Rightarrow> v)"

text \<open>
  The rule as the specification words it, for comparison: a string is numeric when none
  of the glyphs \<^verbatim>\<open>- + * ^ / %\<close> stands outside position 0 and \<^verbatim>\<open>Number\<close> gives a
  finite number.
\<close>

definition spec_isNumeric :: "string \<Rightarrow> bool" where
  "spec_isNumeric s =
     (list_all (\<lambda>c. c \<notin> set ''-+*^/%'') (drop 1 s) \<and> isFinite (StringToNumber s))"

section \<open>Unary operators (expressions.ts, OperandMaker.unaryFunctions)\<close>

text \<open>
  \<^verbatim>\<open>empty: function(value) { if (value == null) return true; return !value; }\<close>
  \<^verbatim>\<open>notempty: function(value) { return !OperandMaker.unaryFunctions.empty(value); }\<close>
  \<^verbatim>\<open>negate: function(value) { return !value; }\<close>
\<close>

definition unary_empty :: "jsval \<Rightarrow> bool" where
  "unary_empty v = (if looseNull v then True else \<not> truthy v)"

definition unary_notempty :: "jsval \<Rightarrow> bool" where
  "unary_notempty v = (\<not> unary_empty v)"

definition unary_negate :: "jsval \<Rightarrow> bool" where
  "unary_negate v = (\<not> truthy v)"

text \<open>The table itself: a lookup under any other key gives \<^verbatim>\<open>undefined\<close>.\<close>

definition unaryFunctions :: "string \<Rightarrow> (jsval \<Rightarrow> jsval) option" where
  "unaryFunctions name =
     (if name = ''empty'' then Some (\<lambda>v. JBool (unary_empty v))
      else if name = ''notempty'' then Some (\<lambda>v. JBool (unary_notempty v))
      else if name = ''negate'' then Some (\<lambda>v. JBool (unary_negate v))
      else None)"

section \<open>The helper module (helpers.ts)\<close>

text \<open>
  The engine calls \<^verbatim>\<open>Helpers.isValueEmpty(value)\<close> and
  \<^verbatim>\<open>Helpers.isTwoValueEquals(x, y, ignoreOrder)\<close>, the survey also
  \<^verbatim>\<open>Helpers.getUnbindValue(value)\<close>. The file helpers.ts is not among the sources, so
  these functions are parameters of the model: every function below that reaches them
  takes the module as an argument.
\<close>

record Helpers =
  isValueEmpty :: "jsval \<Rightarrow> bool"
  isTwoValueEquals :: "jsval \<Rightarrow> jsval \<Rightarrow> bool \<Rightarrow> bool"
  getUnbindValue :: "jsval \<Rightarrow> jsval"

text \<open>
  Modelled from the spec: \<^verbatim>\<open>Helpers.isValueEmpty\<close> (helpers.ts is missing). The
  specification calls an operand empty when it is \<^verbatim>\<open>null\<close>, \<^verbatim>\<open>undefined\<close> or
  empty, so the empty values are \<^verbatim>\<open>null\<close>, \<^verbatim>\<open>undefined\<close>, the empty string and the
  empty sequence.
\<close>

definition spec_isValueEmpty :: "jsval \<Rightarrow> bool" where
  "spec_isValueEmpty v = (v = JUndefined \<or> v = JNull \<or> v = JStr [] \<or> v = JArr [])"

text \<open>
  Modelled from the spec: \<^verbatim>\<open>Helpers.isTwoValueEquals\<close> (helpers.ts is missing), a
  deep, type-normalizing equality: numbers and numeric strings compare by value,
  sequences element by element, and \<^verbatim>\<open>null\<close> equals nothing but \<^verbatim>\<open>null\<close> and
  \<^verbatim>\<open>undefined\<close>. The specification does not say what the order flag changes; this
  function compares sequences in order whatever the flag. \<^verbatim>\<open>getUnbindValue\<close>
  returns a copy of its argument, which in this model is the argument.
\<close>

fun num_eq :: "jsnum \<Rightarrow> jsnum \<Rightarrow> bool" where
  "num_eq NaN y = False"
| "num_eq x NaN = False"
| "num_eq x y = (x = y)"

fun spec_equals :: "jsval \<Rightarrow> jsval \<Rightarrow> bool" where
  "spec_equals (JArr xs) (JArr ys) = list_all2 spec_equals xs ys"
| "spec_equals (JArr xs) y = False"
| "spec_equals x (JArr ys) = False"
| "spec_equals (JStr s) (JStr t) = (s = t)"
| "spec_equals x y =
     (if looseNull x \<or> looseNull y then looseNull x \<and> looseNull y
      else num_eq (toNum x) (toNum y))"

definition specHelpers :: Helpers where
  "specHelpers =
     \<lparr>isValueEmpty = spec_isValueEmpty,
      isTwoValueEquals = (\<lambda>x y ignoreOrder. spec_equals x y),
      getUnbindValue = (\<lambda>v. v)\<rparr>"

section \<open>Binary operators (expressions.ts, OperandMaker.binaryFunctions)\<close>

text \<open>
  The functions of the table, each under its key with the suffix \<open>_op\<close> (the keys
  themselves are names of the logic). \<^verbatim>\<open>div\<close> and \<^verbatim>\<open>mod\<close> return \<^verbatim>\<open>null\<close> for a
  falsy right operand; the four comparisons return \<^verbatim>\<open>false\<close> when a side is
  \<^verbatim>\<open>null\<close> or \<^verbatim>\<open>undefined\<close>.
\<close>

definition div_op :: "jsval \<Rightarrow> jsval \<Rightarrow> jsval" where
  "div_op a b = (if \<not> truthy b then JNull else js_div a b)"

definition mod_op :: "jsval \<Rightarrow> jsval \<Rightarrow> jsval" where
  "mod_op a b = (if \<not> truthy b then JNull else js_mod a b)"

definition greater_op :: "jsval \<Rightarrow> jsval \<Rightarrow> bool" where
  "greater_op l r = (if looseNull l \<or> looseNull r then False else js_lt r l = Some True)"

definition less_op :: "jsval \<Rightarrow> jsval \<Rightarrow> bool" where
  "less_op l r = (if looseNull l \<or> looseNull r then False else js_lt l r = Some True)"

definition greaterorequal_op :: "jsval \<Rightarrow> jsval \<Rightarrow> bool" where
  "greaterorequal_op l r =
     (if looseNull l \<or> looseNull r then False else js_lt l r = Some False)"

definition lessorequal_op :: "jsval \<Rightarrow> jsval \<Rightarrow> bool" where
  "lessorequal_op l r =
     (if looseNull l \<or> looseNull r then False else js_lt r l = Some False)"

definition equal_op :: "Helpers \<Rightarrow> jsval \<Rightarrow> jsval \<Rightarrow> bool" where
  "equal_op H l r = isTwoValueEquals H l r True"

definition notequal_op :: "Helpers \<Rightarrow> jsval \<Rightarrow> jsval \<Rightarrow> bool" where
  "notequal_op H l r = (\<not> isTwoValueEquals H l r True)"

text \<open>
  \<^verbatim>\<open>containsCore(left, right, isContains)\<close>. A truthy \<^verbatim>\<open>left\<close> with no length or
  length \<^verbatim>\<open>0\<close> (a number, \<^verbatim>\<open>true\<close>, the empty array) is replaced by its string. On
  a string the search is \<^verbatim>\<open>indexOf\<close>; on a non-empty array, \<^verbatim>\<open>right\<close> is taken as
  an array (\<open>asArray\<close>: itself, or the array of it alone) and each of its elements is
  looked for in \<^verbatim>\<open>left\<close> with \<^verbatim>\<open>isTwoValueEquals(left[i], right)\<close>, whose order flag
  is left out, that is, false.
\<close>

fun asArray :: "jsval \<Rightarrow> jsval list" where
  "asArray (JArr rs) = rs"
| "asArray r = [r]"

definition containsString :: "string \<Rightarrow> jsval \<Rightarrow> bool \<Rightarrow> bool" where
  "containsString left right isContains =
     (if \<not> truthy right then False
      else (let found = (indexOf left (toStr right) > - 1)
            in if isContains then found else \<not> found))"

fun containsLoop :: "Helpers \<Rightarrow> jsval list \<Rightarrow> jsval list \<Rightarrow> bool \<Rightarrow> bool" where
  "containsLoop H left [] isContains = isContains"
| "containsLoop H left (r # rightArray) isContains =
     (if list_ex (\<lambda>l. isTwoValueEquals H l r False) left
      then containsLoop H left rightArray isContains
      else \<not> isContains)"

definition containsCore :: "Helpers \<Rightarrow> jsval \<Rightarrow> jsval \<Rightarrow> bool \<Rightarrow> bool" where
  "containsCore H left right isContains =
     (if \<not> truthy left then False
      else (case left of
              JStr s \<Rightarrow> containsString s right isContains
            | JArr xs \<Rightarrow>
                if xs = [] then containsString (toStr left) right isContains
                else containsLoop H xs (asArray right) isContains
            | _ \<Rightarrow> containsString (toStr left) right isContains))"

definition contains_op :: "Helpers \<Rightarrow> jsval \<Rightarrow> jsval \<Rightarrow> bool" where
  "contains_op H left right = containsCore H left right True"

definition notcontains_op :: "Helpers \<Rightarrow> jsval \<Rightarrow> jsval \<Rightarrow> bool" where
  "notcontains_op H left right =
     (if \<not> truthy left \<and> \<not> isValueEmpty H right then True
      else containsCore H left right False)"

fun anyofLoop :: "Helpers \<Rightarrow> jsval \<Rightarrow> jsval list \<Rightarrow> bool" where
  "anyofLoop H left [] = False"
| "anyofLoop H left (r # rs) = (if contains_op H left r then True else anyofLoop H left rs)"

definition anyof_op :: "Helpers \<Rightarrow> jsval \<Rightarrow> jsval \<Rightarrow> bool" where
  "anyof_op H left right =
     (if \<not> truthy left \<and> isValueEmpty H right then True
      else if \<not> truthy left \<or> \<not> isArray left \<or> left = JArr [] then False
      else if isValueEmpty H right then True
      else (case right of
              JArr rs \<Rightarrow> anyofLoop H left rs
            | _ \<Rightarrow> contains_op H left right))"

fun allofLoop :: "Helpers \<Rightarrow> jsval \<Rightarrow> jsval list \<Rightarrow> bool" where
  "allofLoop H left [] = True"
| "allofLoop H left (r # rs) = (if \<not> contains_op H left r then False else allofLoop H left rs)"

definition allof_op :: "Helpers \<Rightarrow> jsval \<Rightarrow> jsval \<Rightarrow> bool" where
  "allof_op H left right =
     (if \<not> truthy left \<and> \<not> isValueEmpty H right then False
      else (case right of
              JArr rs \<Rightarrow> allofLoop H left rs
            | _ \<Rightarrow> contains_op H left right))"

text \<open>
  The table. A call of an entry returns a value, with one exception: the entry
  \<^verbatim>\<open>arithmeticOp\<close> returns a function, the closure over its first argument taken as
  the operator name. A key that is not in the table gives \<^verbatim>\<open>undefined\<close> (\<open>None\<close>).
  The table is read by its own keys: the names that an object literal inherits
  (\<^verbatim>\<open>toString\<close>, \<^verbatim>\<open>constructor\<close>, \<^verbatim>\<open>valueOf\<close>, ...) are not operator names of the
  model, and the same holds for the table of the unary operators.
  The entry \<^verbatim>\<open>containsCore\<close>, called with two arguments, has \<^verbatim>\<open>isContains\<close>
  undefined, which is falsy.
\<close>

datatype jsresult = Value jsval | FunctionObject string

type_synonym binaryFunction = "jsval \<Rightarrow> jsval \<Rightarrow> jsresult"

definition binaryFunctions :: "Helpers \<Rightarrow> string \<Rightarrow> binaryFunction option" where
  "binaryFunctions H name =
     (if name = ''arithmeticOp'' then Some (\<lambda>a b. FunctionObject (toStr a))
      else if name = ''and'' then Some (\<lambda>a b. Value (js_and a b))
      else if name = ''or'' then Some (\<lambda>a b. Value (js_or a b))
      else if name = ''plus'' then Some (\<lambda>a b. Value (js_add a b))
      else if name = ''minus'' then Some (\<lambda>a b. Value (js_sub a b))
      else if name = ''mul'' then Some (\<lambda>a b. Value (js_mul a b))
      else if name = ''div'' then Some (\<lambda>a b. Value (div_op a b))
      else if name = ''mod'' then Some (\<lambda>a b. Value (mod_op a b))
      else if name = ''power'' then Some (\<lambda>a b. Value (js_pow a b))
      else if name = ''greater'' then Some (\<lambda>l r. Value (JBool (greater_op l r)))
      else if name = ''less'' then Some (\<lambda>l r. Value (JBool (less_op l r)))
      else if name = ''greaterorequal'' then Some (\<lambda>l r. Value (JBool (greaterorequal_op l r)))
      else if name = ''lessorequal'' then Some (\<lambda>l r. Value (JBool (lessorequal_op l r)))
      else if name = ''equal'' then Some (\<lambda>l r. Value (JBool (equal_op H l r)))
      else if name = ''notequal'' then Some (\<lambda>l r. Value (JBool (notequal_op H l r)))
      else if name = ''contains'' then Some (\<lambda>l r. Value (JBool (contains_op H l r)))
      else if name = ''notcontains'' then Some (\<lambda>l r. Value (JBool (notcontains_op H l r)))
      else if name = ''anyof'' then Some (\<lambda>l r. Value (JBool (anyof_op H l r)))
      else if name = ''allof'' then Some (\<lambda>l r. Value (JBool (allof_op H l r)))
      else if name = ''containsCore'' then Some (\<lambda>l r. Value (JBool (containsCore H l r False)))
      else None)"

text \<open>
  \<^verbatim>\<open>arithmeticOp(operatorName)\<close> returns a function for every name: the closure
  replaces an empty operand by \<^verbatim>\<open>0\<close>, looks the operator up when it is called, and
  returns \<^verbatim>\<open>null\<close> when the table has no such key.
\<close>

definition arithmeticOp :: "Helpers \<Rightarrow> string \<Rightarrow> binaryFunction" where
  "arithmeticOp H operatorName =
     (\<lambda>a b.
        (let a = (if isValueEmpty H a then JNum (Fin 0) else a);
             b = (if isValueEmpty H b then JNum (Fin 0) else b)
         in case binaryFunctions H operatorName of
              None \<Rightarrow> Value JNull
            | Some consumer \<Rightarrow> consumer a b))"

section \<open>Operands (expressions.ts, classes BinaryOperand and UnaryOperand)\<close>

text \<open>
  \<^verbatim>\<open>throwInvalidOperatorError(op)\<close> throws an \<^verbatim>\<open>Error\<close> with the message
  \<^verbatim>\<open>Invalid operator: 'op'\<close>. A constructor returns the error or the object. The
  operands below a node are of any operand class (or \<^verbatim>\<open>null\<close>); their type is a
  parameter, and their \<^verbatim>\<open>evaluate\<close> is passed to the node's. The fields
  \<^verbatim>\<open>left\<close> and \<^verbatim>\<open>right\<close> are \<open>left_operand\<close> and \<open>right_operand\<close> here.
\<close>

datatype error = Error string

definition throwInvalidOperatorError :: "string \<Rightarrow> error" where
  "throwInvalidOperatorError opname = Error (''Invalid operator: '' @ [CHR 0x27] @ opname @ [CHR 0x27])"

record 'o BinaryOperand =
  operatorName :: string
  left_operand :: "'o option"
  right_operand :: "'o option"
  consumer :: binaryFunction

definition new_BinaryOperand ::
  "Helpers \<Rightarrow> string \<Rightarrow> 'o option \<Rightarrow> 'o option \<Rightarrow> bool \<Rightarrow> error + 'o BinaryOperand" where
  "new_BinaryOperand H opname l r isArithmeticOp =
     (case (if isArithmeticOp then Some (arithmeticOp H opname) else binaryFunctions H opname) of
        None \<Rightarrow> Inl (throwInvalidOperatorError opname)
      | Some c \<Rightarrow> Inr \<lparr>operatorName = opname, left_operand = l, right_operand = r, consumer = c\<rparr>)"

definition evaluateParam :: "('o \<Rightarrow> jsval) \<Rightarrow> 'o option \<Rightarrow> jsval" where
  "evaluateParam ev x = (case x of None \<Rightarrow> JNull | Some operand \<Rightarrow> ev operand)"

definition BinaryOperand_evaluate :: "('o \<Rightarrow> jsval) \<Rightarrow> 'o BinaryOperand \<Rightarrow> jsresult" where
  "BinaryOperand_evaluate ev node =
     consumer node (evaluateParam ev (left_operand node)) (evaluateParam ev (right_operand node))"

record 'o UnaryOperand =
  expression :: 'o
  unaryOperatorName :: string
  unaryConsumer :: "jsval \<Rightarrow> jsval"

definition new_UnaryOperand :: "'o \<Rightarrow> string \<Rightarrow> error + 'o UnaryOperand" where
  "new_UnaryOperand e opname =
     (case unaryFunctions opname of
        None \<Rightarrow> Inl (throwInvalidOperatorError opname)
      | Some c \<Rightarrow> Inr \<lparr>expression = e, unaryOperatorName = opname, unaryConsumer = c\<rparr>)"

definition UnaryOperand_evaluate :: "('o \<Rightarrow> jsval) \<Rightarrow> 'o UnaryOperand \<Rightarrow> jsval" where
  "UnaryOperand_evaluate ev node = unaryConsumer node (ev (expression node))"

section \<open>Validators (validator.ts)\<close>

text \<open>
  A validator returns \<^verbatim>\<open>null\<close> or a \<^verbatim>\<open>ValidatorResult\<close>, whose \<^verbatim>\<open>error\<close> is
  \<^verbatim>\<open>null\<close> or a \<^verbatim>\<open>SurveyError\<close>; it can also throw (the regular expression of a
  \<^verbatim>\<open>RegexValidator\<close> may not compile). The fields \<^verbatim>\<open>value\<close> and \<^verbatim>\<open>error\<close> of the
  result are \<open>result_value\<close> and \<open>result_error\<close> here, the field \<^verbatim>\<open>text\<close> of a
  validator is \<open>errorText\<close>.
\<close>

datatype SurveyError = CustomError string | RequreNumericError

record ValidatorResult =
  result_value :: jsval
  result_error :: "SurveyError option"

text \<open>
  \<^verbatim>\<open>createCustomError(name)\<close> is \<^verbatim>\<open>new CustomError(this.getErrorText(name), ...)\<close>,
  and \<^verbatim>\<open>getErrorText\<close> is the validator's text or, when that is empty, its default
  text, which is the empty string for the base class and for the regex validator.
\<close>

record RegexValidator =
  errorText :: string
  regex :: "string option"

definition getErrorText :: "RegexValidator \<Rightarrow> string \<Rightarrow> string" where
  "getErrorText v name = (if errorText v \<noteq> [] then errorText v else [])"

definition createCustomError :: "RegexValidator \<Rightarrow> string \<Rightarrow> SurveyError" where
  "createCustomError v name = CustomError (getErrorText v name)"

text \<open>
  \<^verbatim>\<open>RegexValidator.validate\<close>. The compiled expression is a predicate on strings, and
  \<^verbatim>\<open>re.test(value)\<close> applies it to the string of the value. What
  \<^verbatim>\<open>new RegExp(this.regex)\<close> gives (the compiled expression, or the error it throws)
  is an argument of the model.
\<close>

definition hasError ::
  "RegexValidator \<Rightarrow> (string \<Rightarrow> bool) \<Rightarrow> jsval \<Rightarrow> string \<Rightarrow> ValidatorResult option" where
  "hasError v re val name =
     (if re (toStr val) then None
      else Some \<lparr>result_value = val, result_error = Some (createCustomError v name)\<rparr>)"

fun regexLoop ::
  "RegexValidator \<Rightarrow> (string \<Rightarrow> bool) \<Rightarrow> jsval list \<Rightarrow> string \<Rightarrow> ValidatorResult option" where
  "regexLoop v re [] name = None"
| "regexLoop v re (x # xs) name =
     (case hasError v re x name of
        Some res \<Rightarrow> Some res
      | None \<Rightarrow> regexLoop v re xs name)"

definition RegexValidator_validate ::
  "Helpers \<Rightarrow> (error + (string \<Rightarrow> bool)) \<Rightarrow> RegexValidator \<Rightarrow> jsval \<Rightarrow> string
     \<Rightarrow> error + ValidatorResult option" where
  "RegexValidator_validate H newRegExp v val name =
     (if regex v = None \<or> regex v = Some [] \<or> isValueEmpty H val then Inr None
      else (case newRegExp of
              Inl e \<Rightarrow> Inl e
            | Inr re \<Rightarrow>
                (case (case val of JArr xs \<Rightarrow> regexLoop v re xs name | _ \<Rightarrow> None) of
                   Some res \<Rightarrow> Inr (Some res)
                 | None \<Rightarrow> Inr (hasError v re val name))))"

text \<open>
  \<^verbatim>\<open>ValidatorRunner.run(owner)\<close>. A validator is an object with the flag
  \<^verbatim>\<open>isValidateAllValues\<close> and the two methods; the owner gives the validators, the
  value, the title and the data set with its properties.
\<close>

record ('v, 'p) SurveyValidator =
  isValidateAllValues :: bool
  validate :: "jsval \<Rightarrow> string \<Rightarrow> error + ValidatorResult option"
  validateAllValues :: "jsval \<Rightarrow> 'v \<Rightarrow> 'p \<Rightarrow> string \<Rightarrow> error + ValidatorResult option"

record ('v, 'p) IValidatorOwner =
  validators :: "('v, 'p) SurveyValidator list"
  validatedValue :: jsval
  getValidatorTitle :: string
  getDataFilteredValues :: 'v
  getDataFilteredProperties :: 'p

definition callValidator ::
  "('v, 'p) IValidatorOwner \<Rightarrow> ('v, 'p) SurveyValidator \<Rightarrow> error + ValidatorResult option" where
  "callValidator owner validator =
     (if \<not> isValidateAllValues validator
      then validate validator (validatedValue owner) (getValidatorTitle owner)
      else validateAllValues validator (validatedValue owner) (getDataFilteredValues owner)
             (getDataFilteredProperties owner) (getValidatorTitle owner))"

fun runLoop ::
  "('v, 'p) IValidatorOwner \<Rightarrow> ('v, 'p) SurveyValidator list \<Rightarrow> SurveyError list
     \<Rightarrow> error + SurveyError list" where
  "runLoop owner [] res = Inr res"
| "runLoop owner (validator # rest) res =
     (case callValidator owner validator of
        Inl e \<Rightarrow> Inl e
      | Inr validatorResult \<Rightarrow>
          runLoop owner rest
            (case validatorResult of
               None \<Rightarrow> res
             | Some r \<Rightarrow> (case result_error r of None \<Rightarrow> res | Some err \<Rightarrow> res @ [err])))"

definition run :: "('v, 'p) IValidatorOwner \<Rightarrow> error + SurveyError list" where
  "run owner = runLoop owner (validators owner) []"

text \<open>The regex validator as an object of the runner; \<^verbatim>\<open>validateAllValues\<close> is the
  base class's, which returns \<^verbatim>\<open>null\<close>.\<close>

definition regexValidatorObject ::
  "Helpers \<Rightarrow> (error + (string \<Rightarrow> bool)) \<Rightarrow> RegexValidator \<Rightarrow> ('v, 'p) SurveyValidator" where
  "regexValidatorObject H newRegExp v =
     \<lparr>isValidateAllValues = False,
      validate = RegexValidator_validate H newRegExp v,
      validateAllValues = (\<lambda>val vals props name. Inr None)\<rparr>"

text \<open>
  \<^verbatim>\<open>ExpressionValidator\<close>, the validator of the whole data set: its
  \<^verbatim>\<open>isValidateAllValues\<close> is \<^verbatim>\<open>true\<close>, its \<^verbatim>\<open>validate\<close> is the base class's, which
  returns \<^verbatim>\<open>null\<close>, and its \<^verbatim>\<open>validateAllValues\<close> reports an error when the
  expression is falsy on the data set. The module of the condition runner is not part of
  the sources: what \<^verbatim>\<open>conditionRunner.run(values, properties)\<close> gives for the
  expression (its value, or the error it throws) is an argument of the model, and so is
  the default error text, which comes from the localization. The field \<^verbatim>\<open>text\<close> is
  \<open>expressionText\<close> here and the field \<^verbatim>\<open>expression\<close> is \<open>validatorExpression\<close>.
\<close>

record ExpressionValidator =
  expressionText :: string
  validatorExpression :: string

definition ExpressionValidator_validateAllValues ::
  "('v \<Rightarrow> 'p \<Rightarrow> error + jsval) \<Rightarrow> string \<Rightarrow> ExpressionValidator
     \<Rightarrow> jsval \<Rightarrow> 'v \<Rightarrow> 'p \<Rightarrow> string \<Rightarrow> error + ValidatorResult option" where
  "ExpressionValidator_validateAllValues conditionRun defaultErrorText v val vals props name =
     (if validatorExpression v = [] then Inr None
      else (case conditionRun vals props of
              Inl e \<Rightarrow> Inl e
            | Inr res \<Rightarrow>
                if \<not> truthy res
                then Inr (Some \<lparr>result_value = val,
                                 result_error = Some (CustomError
                                   (if expressionText v \<noteq> [] then expressionText v
                                    else defaultErrorText))\<rparr>)
                else Inr None))"

definition expressionValidatorObject ::
  "('v \<Rightarrow> 'p \<Rightarrow> error + jsval) \<Rightarrow> string \<Rightarrow> ExpressionValidator
     \<Rightarrow> ('v, 'p) SurveyValidator" where
  "expressionValidatorObject conditionRun defaultErrorText v =
     \<lparr>isValidateAllValues = True,
      validate = (\<lambda>val name. Inr None),
      validateAllValues = ExpressionValidator_validateAllValues conditionRun defaultErrorText v\<rparr>"

text \<open>The language of \<^verbatim>\<open>/^[a-z]+$/\<close>, for the examples.\<close>

definition lowercaseWord :: "string \<Rightarrow> bool" where
  "lowercaseWord s =
     (s \<noteq> [] \<and> list_all (\<lambda>c. 97 \<le> (of_char c :: nat) \<and> (of_char c :: nat) \<le> 122) s)"

section \<open>The survey (survey.ts, class SurveyModel)\<close>

text \<open>
  The state of a survey, as far as the functions below read or write it. Pages and
  questions are objects of other files; the state holds of each what these functions
  read: of a page its name and its visibility, of a question its name, its value
  name, its page, and its visibility, value and errors. Pages and questions are
  identified by these records.

  What leaves the survey is modelled in three ways. A trigger's \<^verbatim>\<open>checkExpression\<close>
  and a page's \<^verbatim>\<open>runCondition\<close> run code that writes to the survey (a trigger sets
  values or completes the survey): they are functions on the state, given by the
  collaborators. The other methods of pages and questions and the event handlers
  that return something are functions that give what they return or what they leave
  in the page or question; they are taken not to call back into the survey. Every
  notification is recorded in \<open>events\<close>, the trace of the survey. The timer, the
  rendering of pages and the posting of results are not modelled beyond that trace.

  \<^verbatim>\<open>this.isValueEmpty\<close> and \<^verbatim>\<open>this.isTwoValueEquals\<close> are the base class's (base.ts,
  not among the sources); they are taken to be the helper module's, the order flag
  being false.
\<close>

record question =
  q_name :: string
  q_valueName :: string
  q_page :: string
  q_visible :: bool
  q_hasInput :: bool
  q_supportGoNextPageAutomatic :: bool
  q_value :: jsval
  q_errors :: "SurveyError list"

record page =
  p_name :: string
  p_isVisible :: bool

datatype 't event =
    TriggerCheckExpression 't
  | PageRunCondition string
  | QuestionUpdateValueFromSurvey string jsval
  | QuestionOnSurveyValueChanged string jsval
  | OnValueChanged string "string option" jsval
  | OnValidatedErrorsOnCurrentPage
  | OnServerValidateQuestions "(string \<times> jsval) list"
  | OnCurrentPageChanged "string option" "string option"
  | OnCompleting
  | OnComplete
  | SendResult bool

record 't SurveyModel =
  isCompleted :: bool
  isValidatingOnServer :: bool
  isLoadingFromJson :: bool
  isEndLoadingFromJson :: "string option"
  isDesignMode :: bool
  mode :: string
  valuesHash :: "string \<Rightarrow> jsval option"
  variablesHash :: "string \<Rightarrow> jsval option"
  conditionVersion :: nat
  triggers :: "'t list"
  pages :: "page list"
  currentPageValue :: "string option"
  questions :: "question list"
  goNextPageAutomatic :: jsval
  checkErrorsMode :: string
  sendResultOnPageNext :: bool
  surveyPostId :: string
  cookieName :: string
  browserCookie :: bool
  events :: "'t event list"

record 't collaborators =
  helpers :: Helpers
  trigger_isOnNextPage :: "'t \<Rightarrow> bool"
  trigger_checkExpression ::
    "'t \<Rightarrow> (string \<Rightarrow> jsval option) \<Rightarrow> (string \<Rightarrow> jsval option) \<Rightarrow> 't SurveyModel \<Rightarrow> 't SurveyModel"
  page_runCondition :: "string \<Rightarrow> (string \<Rightarrow> jsval option) \<Rightarrow> 't SurveyModel \<Rightarrow> 't SurveyModel"
  page_hasErrors :: "string \<Rightarrow> 't SurveyModel \<Rightarrow> bool \<times> question list"
  question_hasErrors :: "question \<Rightarrow> 't SurveyModel \<Rightarrow> SurveyError list"
  questions_clearUnusedValues :: "'t SurveyModel \<Rightarrow> (string \<Rightarrow> jsval option) \<times> question list"
  onValueChanging :: "(string \<Rightarrow> jsval \<Rightarrow> jsval \<Rightarrow> jsval) option"
  onCompleting :: "'t SurveyModel \<Rightarrow> bool"
  onCurrentPageChanging :: "string option \<Rightarrow> string option \<Rightarrow> bool"
  onServerValidateQuestions_isEmpty :: bool
  onValidatedErrorsOnCurrentPage_isEmpty :: bool

definition logEvent :: "'t event \<Rightarrow> 't SurveyModel \<Rightarrow> 't SurveyModel" where
  "logEvent e s = s\<lparr>events := events s @ [e]\<rparr>"

definition typeError :: error where
  "typeError = Error ''TypeError''"

subsection \<open>Values\<close>

text \<open>
  \<^verbatim>\<open>getValue(name)\<close>; a key that is not in the store reads as \<^verbatim>\<open>undefined\<close>.
  \<^verbatim>\<open>isValueEqual(name, newValue)\<close> takes the empty string and \<^verbatim>\<open>undefined\<close> for
  \<^verbatim>\<open>null\<close> on both sides.
\<close>

definition getValue :: "Helpers \<Rightarrow> 't SurveyModel \<Rightarrow> string \<Rightarrow> jsval" where
  "getValue H s name =
     (if name = [] then JNull
      else getUnbindValue H (case valuesHash s name of None \<Rightarrow> JUndefined | Some v \<Rightarrow> v))"

definition isValueEqual :: "Helpers \<Rightarrow> 't SurveyModel \<Rightarrow> string \<Rightarrow> jsval \<Rightarrow> bool" where
  "isValueEqual H s name newValue =
     (let newValue = (if newValue = JStr [] \<or> newValue = JUndefined then JNull else newValue);
          oldValue = getValue H s name;
          oldValue = (if oldValue = JStr [] \<or> oldValue = JUndefined then JNull else oldValue)
      in if newValue = JNull \<or> oldValue = JNull then newValue = oldValue
         else isTwoValueEquals H newValue oldValue False)"

definition getFilteredValues :: "'t SurveyModel \<Rightarrow> (string \<Rightarrow> jsval option) \<times> 't SurveyModel" where
  "getFilteredValues s =
     (let version = conditionVersion s + 1
      in ((variablesHash s ++ valuesHash s)(''conditionVersion'' \<mapsto> JNum (Fin (real version))),
          s\<lparr>conditionVersion := version\<rparr>))"

subsection \<open>Pages\<close>

definition visiblePages :: "'t SurveyModel \<Rightarrow> string list" where
  "visiblePages s =
     (if isDesignMode s then map p_name (pages s)
      else map p_name (filter p_isVisible (pages s)))"

fun indexFrom :: "'a list \<Rightarrow> 'a \<Rightarrow> int \<Rightarrow> int" where
  "indexFrom [] x i = - 1"
| "indexFrom (y # ys) x i = (if y = x then i else indexFrom ys x (i + 1))"

definition pageIndexOf :: "string list \<Rightarrow> string option \<Rightarrow> int" where
  "pageIndexOf vPages p = (case p of None \<Rightarrow> - 1 | Some n \<Rightarrow> indexFrom vPages n 0)"

definition arrayGet :: "'a list \<Rightarrow> int \<Rightarrow> 'a option" where
  "arrayGet xs i = (if 0 \<le> i \<and> i < int (length xs) then Some (xs ! nat i) else None)"

text \<open>
  The setter and the getter of \<^verbatim>\<open>currentPage\<close>. The setter is called with a page of
  the survey, \<^verbatim>\<open>null\<close> or \<^verbatim>\<open>undefined\<close> here. The getter writes: a current page
  that is no longer visible is replaced by the first visible page.
\<close>

definition set_currentPage ::
  "'t collaborators \<Rightarrow> 't SurveyModel \<Rightarrow> string option \<Rightarrow> 't SurveyModel" where
  "set_currentPage E s newPage =
     (if (case newPage of None \<Rightarrow> False | Some p \<Rightarrow> p \<notin> set (visiblePages s)) then s
      else if newPage = currentPageValue s then s
      else if \<not> onCurrentPageChanging E newPage (currentPageValue s) then s
      else logEvent (OnCurrentPageChanged newPage (currentPageValue s))
             (s\<lparr>currentPageValue := newPage\<rparr>))"

definition get_currentPage ::
  "'t collaborators \<Rightarrow> 't SurveyModel \<Rightarrow> string option \<times> 't SurveyModel" where
  "get_currentPage E s =
     (let s1 = (case currentPageValue s of
                  None \<Rightarrow> s
                | Some p \<Rightarrow> if p \<notin> set (visiblePages s) then set_currentPage E s None else s);
          s2 = (if currentPageValue s1 = None \<and> visiblePages s1 \<noteq> []
                then set_currentPage E s1 (Some (hd (visiblePages s1)))
                else s1)
      in (currentPageValue s2, s2))"

definition isLastPage :: "'t collaborators \<Rightarrow> 't SurveyModel \<Rightarrow> bool \<times> 't SurveyModel" where
  "isLastPage E s =
     (let (p, s1) = get_currentPage E s
      in if p = None then (True, s1)
         else (let (p2, s2) = get_currentPage E s1
               in (pageIndexOf (visiblePages s1) p2 = int (length (visiblePages s1)) - 1, s2)))"

definition getCurrentPageQuestions ::
  "'t collaborators \<Rightarrow> 't SurveyModel \<Rightarrow> question list \<times> 't SurveyModel" where
  "getCurrentPageQuestions E s =
     (let (p, s1) = get_currentPage E s
      in case p of
           None \<Rightarrow> ([], s1)
         | Some n \<Rightarrow> (filter (\<lambda>q. q_page q = n \<and> q_visible q \<and> q_name q \<noteq> []) (questions s1), s1))"

subsection \<open>Triggers and conditions\<close>

text \<open>
  \<^verbatim>\<open>checkTriggers(key, isOnNextPage)\<close> returns at once when the survey is completed
  or has no trigger. Otherwise it builds the values once and calls
  \<^verbatim>\<open>checkExpression\<close> on every trigger of the asked kind, in order; each call is
  recorded in the trace before the trigger runs.
\<close>

definition checkTriggers ::
  "'t collaborators \<Rightarrow> 't SurveyModel \<Rightarrow> (string \<Rightarrow> jsval option) \<Rightarrow> bool \<Rightarrow> 't SurveyModel" where
  "checkTriggers E s key isOnNextPage =
     (if isCompleted s \<or> triggers s = [] then s
      else (let (vals, s1) = getFilteredValues s
            in foldl (\<lambda>st trigger.
                        if trigger_isOnNextPage E trigger = isOnNextPage
                        then trigger_checkExpression E trigger key vals
                               (logEvent (TriggerCheckExpression trigger) st)
                        else st)
                 s1 (triggers s1)))"

definition checkOnPageTriggers :: "'t collaborators \<Rightarrow> 't SurveyModel \<Rightarrow> 't SurveyModel" where
  "checkOnPageTriggers E s =
     (let (qs, s1) = getCurrentPageQuestions E s;
          vals = foldl (\<lambda>m q. m(q_valueName q \<mapsto> getValue (helpers E) s1 (q_valueName q)))
                   Map.empty qs
      in checkTriggers E s1 vals True)"

definition runConditions :: "'t collaborators \<Rightarrow> 't SurveyModel \<Rightarrow> 't SurveyModel" where
  "runConditions E s =
     (if isCompleted s \<or> isEndLoadingFromJson s = Some ''processing'' then s
      else (let (vals, s1) = getFilteredValues s
            in foldl (\<lambda>st p. page_runCondition E (p_name p) vals
                               (logEvent (PageRunCondition (p_name p)) st))
                 s1 (pages s1)))"

subsection \<open>Completion and page advance\<close>

definition hasCookie :: "'t SurveyModel \<Rightarrow> bool" where
  "hasCookie s = (cookieName s \<noteq> [] \<and> browserCookie s)"

definition setCookie :: "'t SurveyModel \<Rightarrow> 't SurveyModel" where
  "setCookie s = (if cookieName s = [] then s else s\<lparr>browserCookie := True\<rparr>)"

definition setCompleted :: "'t SurveyModel \<Rightarrow> 't SurveyModel" where
  "setCompleted s = s\<lparr>isCompleted := True\<rparr>"

definition clearUnusedValues :: "'t collaborators \<Rightarrow> 't SurveyModel \<Rightarrow> 't SurveyModel" where
  "clearUnusedValues E s =
     (let (vals, qs) = questions_clearUnusedValues E s
      in s\<lparr>valuesHash := vals, questions := qs\<rparr>)"

text \<open>
  \<^verbatim>\<open>doComplete()\<close>: the handlers of \<^verbatim>\<open>onCompleting\<close> may refuse; otherwise the
  survey is set completed, unused values are cleared, the cookie is set,
  \<^verbatim>\<open>onComplete\<close> fires and the result is sent when there was no cookie and the
  survey has a post id.
\<close>

definition doComplete :: "'t collaborators \<Rightarrow> 't SurveyModel \<Rightarrow> 't SurveyModel" where
  "doComplete E s =
     (let s0 = logEvent OnCompleting s
      in if \<not> onCompleting E s then s0
         else (let previousCookie = hasCookie s0;
                   s1 = setCompleted s0;
                   s2 = clearUnusedValues E s1;
                   s3 = setCookie s2;
                   s4 = logEvent OnComplete s3
               in if \<not> previousCookie \<and> surveyPostId s4 \<noteq> []
                  then logEvent (SendResult False) s4
                  else s4))"

definition doNextPage :: "'t collaborators \<Rightarrow> 't SurveyModel \<Rightarrow> 't SurveyModel" where
  "doNextPage E s =
     (let s1 = checkOnPageTriggers E s
      in if \<not> isCompleted s1 then
           (let s2 = (if sendResultOnPageNext s1 then logEvent (SendResult True) s1 else s1);
                vPages = visiblePages s2;
                (p, s3) = get_currentPage E s2;
                i = pageIndexOf vPages p
            in set_currentPage E s3 (arrayGet vPages (i + 1)))
         else doComplete E s1)"

subsection \<open>Validation on the server\<close>

definition setIsValidatingOnServer :: "'t SurveyModel \<Rightarrow> bool \<Rightarrow> 't SurveyModel" where
  "setIsValidatingOnServer s val =
     (if val = isValidatingOnServer s then s else s\<lparr>isValidatingOnServer := val\<rparr>)"

text \<open>
  \<^verbatim>\<open>doServerValidation()\<close> returns false when no handler is registered. Otherwise it
  collects the values of the visible questions of the current page, sets the pending
  flag and hands \<^verbatim>\<open>options\<close> to the handlers (the notification carries the data);
  \<^verbatim>\<open>options.complete\<close> is the function that calls
  \<^verbatim>\<open>completeServerValidation(options)\<close>. Reading the questions of a current page that
  is \<^verbatim>\<open>null\<close> throws.
\<close>

definition doServerValidation ::
  "'t collaborators \<Rightarrow> 't SurveyModel \<Rightarrow> error + bool \<times> 't SurveyModel" where
  "doServerValidation E s =
     (if onServerValidateQuestions_isEmpty E then Inr (False, s)
      else (let (p, s1) = get_currentPage E s
            in case p of
                 None \<Rightarrow> Inl typeError
               | Some n \<Rightarrow>
                   (let qs = filter (\<lambda>q. q_page q = n \<and> q_visible q \<and>
                                \<not> isValueEmpty (helpers E) (getValue (helpers E) s1 (q_valueName q)))
                               (questions s1);
                        data = map (\<lambda>q. (q_valueName q, getValue (helpers E) s1 (q_valueName q))) qs;
                        s2 = setIsValidatingOnServer s1 True
                    in Inr (True, logEvent (OnServerValidateQuestions data) s2))))"

text \<open>
  \<^verbatim>\<open>getQuestionByName(name)\<close> is the first question of that name; \<^verbatim>\<open>addError\<close>
  appends the error to the errors of that question.
\<close>

definition getQuestionByName :: "'t SurveyModel \<Rightarrow> string \<Rightarrow> question option" where
  "getQuestionByName s name = find (\<lambda>q. q_name q = name) (questions s)"

fun addError :: "string \<Rightarrow> SurveyError \<Rightarrow> question list \<Rightarrow> question list" where
  "addError name err [] = []"
| "addError name err (q # qs) =
     (if q_name q = name then q\<lparr>q_errors := q_errors q @ [err]\<rparr> # qs
      else q # addError name err qs)"

text \<open>
  \<^verbatim>\<open>completeServerValidation(options)\<close>, with the \<^verbatim>\<open>errors\<close> object of the options as
  the list of its entries (question name and text) in enumeration order. The
  \<^verbatim>\<open>options\<close> object is the one \<^verbatim>\<open>doServerValidation\<close> built, so it is not null
  and its \<^verbatim>\<open>survey\<close> is this survey.
\<close>

definition processErrors ::
  "'t SurveyModel \<Rightarrow> (string \<times> string) list \<Rightarrow> bool \<times> 't SurveyModel" where
  "processErrors s errors =
     foldl (\<lambda>(hasErrors, st) (name, msg).
              case getQuestionByName st name of
                None \<Rightarrow> (hasErrors, st)
              | Some q \<Rightarrow> (True, st\<lparr>questions := addError name (CustomError msg) (questions st)\<rparr>))
       (False, s) errors"

definition completeServerValidation ::
  "'t collaborators \<Rightarrow> 't SurveyModel \<Rightarrow> (string \<times> string) list \<Rightarrow> 't SurveyModel" where
  "completeServerValidation E s errors =
     (let s0 = setIsValidatingOnServer s False;
          (hasErrors, s1) = processErrors s0 errors
      in if \<not> hasErrors then
           (let (last, s2) = isLastPage E s1
            in if last then doComplete E s2 else doNextPage E s2)
         else s1)"

subsection \<open>Setting a value\<close>

definition questionOnValueChanging ::
  "'t collaborators \<Rightarrow> 't SurveyModel \<Rightarrow> string \<Rightarrow> jsval \<Rightarrow> jsval" where
  "questionOnValueChanging E s valueName newValue =
     (case onValueChanging E of
        None \<Rightarrow> newValue
      | Some handler \<Rightarrow> handler valueName newValue (getValue (helpers E) s valueName))"

fun updateQuestions ::
  "Helpers \<Rightarrow> string \<Rightarrow> jsval \<Rightarrow> question list \<Rightarrow> question list \<times> 't event list" where
  "updateQuestions H valueName newValue [] = ([], [])"
| "updateQuestions H valueName newValue (q # qs) =
     (let (qs', evs) = updateQuestions H valueName newValue qs
      in if q_valueName q = valueName \<and> \<not> isTwoValueEquals H (q_value q) newValue False
         then (q\<lparr>q_value := newValue\<rparr> # qs',
               QuestionUpdateValueFromSurvey (q_name q) newValue # evs)
         else (q # qs', evs))"

definition updateQuestionValue ::
  "'t collaborators \<Rightarrow> 't SurveyModel \<Rightarrow> string \<Rightarrow> jsval \<Rightarrow> 't SurveyModel" where
  "updateQuestionValue E s valueName newValue =
     (if isLoadingFromJson s then s
      else (let (qs, evs) = updateQuestions (helpers E) valueName newValue (questions s)
            in s\<lparr>questions := qs, events := events s @ evs\<rparr>))"

definition fireValidatedErrorsOnCurrentPage ::
  "'t collaborators \<Rightarrow> 't SurveyModel \<Rightarrow> error + 't SurveyModel" where
  "fireValidatedErrorsOnCurrentPage E s =
     (if onValidatedErrorsOnCurrentPage_isEmpty E then Inr s
      else (let (p, s1) = get_currentPage E s
            in case p of
                 None \<Rightarrow> Inl typeError
               | Some n \<Rightarrow> Inr (logEvent OnValidatedErrorsOnCurrentPage s1)))"

fun notifyLoop ::
  "'t collaborators \<Rightarrow> string \<Rightarrow> jsval \<Rightarrow> nat list \<Rightarrow> 't SurveyModel \<Rightarrow> error + 't SurveyModel" where
  "notifyLoop E valueName newValue [] s = Inr s"
| "notifyLoop E valueName newValue (i # is) s =
     (let q = questions s ! i
      in case (if checkErrorsMode s = ''onValueChanged'' then
                 (let oldErrorCount = length (q_errors q);
                      errs = question_hasErrors E q s;
                      s1 = s\<lparr>questions := (questions s)[i := q\<lparr>q_errors := errs\<rparr>]\<rparr>
                  in if oldErrorCount > 0 \<or> length errs > 0
                     then fireValidatedErrorsOnCurrentPage E s1
                     else Inr s1)
               else Inr s) of
           Inl e \<Rightarrow> Inl e
         | Inr s2 \<Rightarrow>
             notifyLoop E valueName newValue is
               (logEvent (OnValueChanged valueName (Some (q_name q)) newValue)
                 (logEvent (QuestionOnSurveyValueChanged (q_name q) newValue) s2)))"

definition notifyQuestionOnValueChanged ::
  "'t collaborators \<Rightarrow> 't SurveyModel \<Rightarrow> string \<Rightarrow> jsval \<Rightarrow> error + 't SurveyModel" where
  "notifyQuestionOnValueChanged E s valueName newValue =
     (if isLoadingFromJson s then Inr s
      else (let indices = filter (\<lambda>i. q_valueName (questions s ! i) = valueName)
                            [0 ..< length (questions s)]
            in if indices \<noteq> [] then notifyLoop E valueName newValue indices s
               else Inr (logEvent (OnValueChanged valueName None newValue) s)))"

definition checkIsCurrentPageHasErrors ::
  "'t collaborators \<Rightarrow> 't SurveyModel \<Rightarrow> error + bool \<times> 't SurveyModel" where
  "checkIsCurrentPageHasErrors E s =
     (let (p, s1) = get_currentPage E s
      in case p of
           None \<Rightarrow> Inr (True, s1)
         | Some n \<Rightarrow>
             (let (res, qs) = page_hasErrors E n s1
              in case fireValidatedErrorsOnCurrentPage E (s1\<lparr>questions := qs\<rparr>) of
                   Inl e \<Rightarrow> Inl e
                 | Inr s2 \<Rightarrow> Inr (res, s2)))"

definition nextPage :: "'t collaborators \<Rightarrow> 't SurveyModel \<Rightarrow> error + bool \<times> 't SurveyModel" where
  "nextPage E s =
     (let (last, s1) = isLastPage E s
      in if last then Inr (False, s1)
         else (case (if mode s1 = ''edit'' then checkIsCurrentPageHasErrors E s1
                     else Inr (False, s1)) of
                 Inl e \<Rightarrow> Inl e
               | Inr (hasErrors, s2) \<Rightarrow>
                   if hasErrors then Inr (False, s2)
                   else (case doServerValidation E s2 of
                           Inl e \<Rightarrow> Inl e
                         | Inr (pending, s3) \<Rightarrow>
                             if pending then Inr (False, s3)
                             else Inr (True, doNextPage E s3))))"

definition completeLastPage ::
  "'t collaborators \<Rightarrow> 't SurveyModel \<Rightarrow> error + bool \<times> 't SurveyModel" where
  "completeLastPage E s =
     (case (if mode s = ''edit'' then checkIsCurrentPageHasErrors E s else Inr (False, s)) of
        Inl e \<Rightarrow> Inl e
      | Inr (hasErrors, s1) \<Rightarrow>
          if hasErrors then Inr (False, s1)
          else (case doServerValidation E s1 of
                  Inl e \<Rightarrow> Inl e
                | Inr (pending, s2) \<Rightarrow>
                    if pending then Inr (False, s2)
                    else Inr (True, doComplete E s2)))"

text \<open>
  \<^verbatim>\<open>tryGoNextPageAutomatic(name)\<close>. A question's \<^verbatim>\<open>isEmpty()\<close> is taken to be
  \<^verbatim>\<open>isValueEmpty\<close> of its value, and the question found by its value name is looked
  for among the questions of the current page by its record.
\<close>

definition tryGoNextPageAutomatic ::
  "'t collaborators \<Rightarrow> 't SurveyModel \<Rightarrow> string \<Rightarrow> error + 't SurveyModel" where
  "tryGoNextPageAutomatic E s name =
     (if isEndLoadingFromJson s \<noteq> None \<and> isEndLoadingFromJson s \<noteq> Some []
         \<or> \<not> truthy (goNextPageAutomatic s) then Inr s
      else (let (p, s1) = get_currentPage E s
            in if p = None then Inr s1
               else (case find (\<lambda>q. q_valueName q = name) (questions s1) of
                       None \<Rightarrow> Inr s1
                     | Some q \<Rightarrow>
                         if \<not> q_visible q \<or> \<not> q_supportGoNextPageAutomatic q then Inr s1
                         else (let (qs, s2) = getCurrentPageQuestions E s1
                               in if q \<notin> set qs then Inr s2
                                  else if list_ex (\<lambda>x. q_hasInput x \<and>
                                            isValueEmpty (helpers E) (q_value x)) qs
                                  then Inr s2
                                  else (case checkIsCurrentPageHasErrors E s2 of
                                          Inl e \<Rightarrow> Inl e
                                        | Inr (hasErrors, s3) \<Rightarrow>
                                            if hasErrors then Inr s3
                                            else (let (last, s4) = isLastPage E s3
                                                  in if \<not> last then map_sum id snd (nextPage E s4)
                                                     else if goNextPageAutomatic s4 = JBool True
                                                     then map_sum id snd (completeLastPage E s4)
                                                     else Inr s4))))))"

text \<open>
  \<^verbatim>\<open>setValue(name, newQuestionValue, locNotification)\<close>. Nothing is written before
  the test that ends the call for an unchanged value.
\<close>

definition setValue ::
  "'t collaborators \<Rightarrow> 't SurveyModel \<Rightarrow> string \<Rightarrow> jsval \<Rightarrow> bool \<Rightarrow> error + 't SurveyModel" where
  "setValue E s name newQuestionValue locNotification =
     (let newValue = questionOnValueChanging E s name newQuestionValue
      in if isValueEqual (helpers E) s name newValue \<and>
            isTwoValueEquals (helpers E) newValue newQuestionValue False
         then Inr s
         else (let s1 = (if isValueEmpty (helpers E) newValue
                         then s\<lparr>valuesHash := (valuesHash s)(name := None)\<rparr>
                         else s\<lparr>valuesHash := (valuesHash s)(name \<mapsto> getUnbindValue (helpers E) newValue)\<rparr>);
                   newValue = (if isValueEmpty (helpers E) newValue then newValue
                               else getUnbindValue (helpers E) newValue);
                   s2 = updateQuestionValue E s1 name newValue
               in if locNotification then Inr s2
                  else (let s3 = checkTriggers E s2 (Map.empty(name \<mapsto> newValue)) False;
                            s4 = runConditions E s3
                        in case notifyQuestionOnValueChanged E s4 name newValue of
                             Inl e \<Rightarrow> Inl e
                           | Inr s5 \<Rightarrow> tryGoNextPageAutomatic E s5 name)))"

section \<open>An example survey\<close>

text \<open>
  A survey of three pages with one question and one trigger, and collaborators that do
  nothing: the trigger and the conditions leave the state as it is, no handler refuses
  anything, and a handler for the validation on the server is registered.
\<close>

definition exampleCollaborators :: "nat collaborators" where
  "exampleCollaborators =
     \<lparr>helpers = specHelpers,
      trigger_isOnNextPage = (\<lambda>t. False),
      trigger_checkExpression = (\<lambda>t key vals s. s),
      page_runCondition = (\<lambda>p vals s. s),
      page_hasErrors = (\<lambda>p s. (False, questions s)),
      question_hasErrors = (\<lambda>q s. []),
      questions_clearUnusedValues = (\<lambda>s. (valuesHash s, questions s)),
      onValueChanging = None,
      onCompleting = (\<lambda>s. True),
      onCurrentPageChanging = (\<lambda>new old. True),
      onServerValidateQuestions_isEmpty = False,
      onValidatedErrorsOnCurrentPage_isEmpty = True\<rparr>"

definition exampleSurvey :: "nat SurveyModel" where
  "exampleSurvey =
     \<lparr>isCompleted = False, isValidatingOnServer = True, isLoadingFromJson = False,
      isEndLoadingFromJson = None, isDesignMode = False, mode = ''edit'',
      valuesHash = [''q1'' \<mapsto> JNum (Fin 5)], variablesHash = Map.empty, conditionVersion = 0,
      triggers = [7],
      pages = [\<lparr>p_name = ''page1'', p_isVisible = True\<rparr>, \<lparr>p_name = ''page2'', p_isVisible = True\<rparr>,
               \<lparr>p_name = ''page3'', p_isVisible = True\<rparr>],
      currentPageValue = Some ''page1'',
      questions = [\<lparr>q_name = ''q1'', q_valueName = ''q1'', q_page = ''page1'', q_visible = True,
                    q_hasInput = True, q_supportGoNextPageAutomatic = False,
                    q_value = JNum (Fin 5), q_errors = []\<rparr>],
      goNextPageAutomatic = JBool False, checkErrorsMode = ''onNextPage'',
      sendResultOnPageNext = False, surveyPostId = [], cookieName = [], browserCookie = False,
      events = []\<rparr>"


section \<open>Notions for the properties\<close>

text \<open>
  \<open>triggerCalls\<close> reads off the trace the triggers whose \<^verbatim>\<open>checkExpression\<close> was
  called, in order; \<open>settled T\<close> holds of a completed survey whose trigger calls are
  \<open>T\<close>. \<open>addErrors\<close> attaches the errors of a completion call one after the other.
\<close>

definition triggerCalls :: "'t SurveyModel \<Rightarrow> 't list" where
  "triggerCalls s =
     concat (map (\<lambda>e. case e of TriggerCheckExpression t \<Rightarrow> [t] | _ \<Rightarrow> []) (events s))"

definition settled :: "'t list \<Rightarrow> 't SurveyModel \<Rightarrow> bool" where
  "settled T s = (isCompleted s \<and> triggerCalls s = T)"


definition addErrors :: "(string \<times> string) list \<Rightarrow> question list \<Rightarrow> question list" where
  "addErrors errors qs = foldl (\<lambda>qs (name, msg). addError name (CustomError msg) qs) qs errors"


chapter \<open>Properties\<close>

section \<open>Coercion of literals\<close>

lemma overflowBound_large: "2 ^ 64 \<le> overflowBound"
proof -
  have "(2::real) ^ 1024 = 2 ^ 54 * 2 ^ 970" by (simp add: power_add [symmetric])
  moreover have "(2::real) ^ 64 \<le> 2 ^ 970" by (rule power_increasing) simp_all
  moreover have "(2::real) * 2 ^ 970 \<le> 2 ^ 54 * 2 ^ 970" by (rule mult_right_mono) simp_all
  ultimately show ?thesis unfolding overflowBound_def by linarith
qed
lemma toDouble_small: "\<bar>r\<bar> < 2 ^ 64 \<Longrightarrow> toDouble r = Fin r"
  using overflowBound_large by (auto simp: toDouble_def)

lemma indexOf_from_char:
  "indexOf_from s [c] i = (if c \<in> set s then i + int (length (takeWhile (\<lambda>x. x \<noteq> c) s)) else - 1)"
  by (induction s arbitrary: i) auto

lemma indexOf_char_found: "(indexOf s [c] > - 1) = (c \<in> set s)"
  by (simp add: indexOf_def indexOf_from_char)

lemma indexOf_char_past1: "(indexOf s [c] > 1) = (c \<in> set s \<and> c \<notin> set (take 2 s))"
proof (cases s)
  case Nil
  then show ?thesis by (simp add: indexOf_def)
next
  case (Cons a t)
  then show ?thesis
    by (cases t) (auto simp: indexOf_def indexOf_from_char)
qed

lemma indexOf_from_range: "0 \<le> i \<Longrightarrow> indexOf_from s p i = - 1 \<or> i \<le> indexOf_from s p i"
proof (induction s arbitrary: i)
  case Nil
  then show ?case by simp
next
  case (Cons c cs)
  from Cons.IH [of "i + 1"] Cons.prems show ?case by auto
qed

lemma indexOf_zero: "s \<noteq> [] \<Longrightarrow> (indexOf s p = 0) = (take (length p) s = p)"
proof (cases s)
  case Nil
  then show "s \<noteq> [] \<Longrightarrow> ?thesis" by simp
next
  case (Cons c cs)
  have "indexOf_from cs p 1 \<noteq> 0" using indexOf_from_range [of 1 cs p] by auto
  with Cons show ?thesis by (simp add: indexOf_def)
qed

lemma lowerChar_cases: "lowerChar x = y \<Longrightarrow> x = y \<or> (of_char x :: nat) + 32 = of_char y"
proof (cases "65 \<le> (of_char x :: nat) \<and> (of_char x :: nat) \<le> 90")
  case True
  assume "lowerChar x = y"
  with True have "y = char_of ((of_char x :: nat) + 32)" by (simp add: lowerChar_def)
  then have "(of_char y :: nat) = ((of_char x :: nat) + 32) mod 256" by simp
  with True show ?thesis by simp
next
  case False
  assume "lowerChar x = y"
  with False show ?thesis by (auto simp: lowerChar_def Let_def)
qed

lemma lowerChar_t: "lowerChar x = CHR ''t'' \<Longrightarrow> x = CHR ''t'' \<or> x = CHR ''T''"
proof -
  assume "lowerChar x = CHR ''t''"
  then have "x = CHR ''t'' \<or> (of_char x :: nat) + 32 = of_char (CHR ''t'')" by (rule lowerChar_cases)
  moreover have "(of_char x :: nat) + 32 = of_char (CHR ''t'') \<Longrightarrow> (of_char x :: nat) = of_char (CHR ''T'')" by simp
  ultimately show ?thesis using of_char_eqI [of x "CHR ''T''", where ?'a = nat] by blast
qed

lemma lowerChar_f: "lowerChar x = CHR ''f'' \<Longrightarrow> x = CHR ''f'' \<or> x = CHR ''F''"
proof -
  assume "lowerChar x = CHR ''f''"
  then have "x = CHR ''f'' \<or> (of_char x :: nat) + 32 = of_char (CHR ''f'')" by (rule lowerChar_cases)
  moreover have "(of_char x :: nat) + 32 = of_char (CHR ''f'') \<Longrightarrow> (of_char x :: nat) = of_char (CHR ''F'')" by simp
  ultimately show ?thesis using of_char_eqI [of x "CHR ''F''", where ?'a = nat] by blast
qed

lemma lowerChar_e: "lowerChar x = CHR ''e'' \<Longrightarrow> x = CHR ''e'' \<or> x = CHR ''E''"
proof -
  assume "lowerChar x = CHR ''e''"
  then have "x = CHR ''e'' \<or> (of_char x :: nat) + 32 = of_char (CHR ''e'')" by (rule lowerChar_cases)
  moreover have "(of_char x :: nat) + 32 = of_char (CHR ''e'') \<Longrightarrow> (of_char x :: nat) = of_char (CHR ''E'')" by simp
  ultimately show ?thesis using of_char_eqI [of x "CHR ''E''", where ?'a = nat] by blast
qed

lemma letter_not_number:
  assumes a: "a \<in> {CHR ''t'', CHR ''T'', CHR ''f'', CHR ''F''}"
    and z: "last (a # t) \<in> {CHR ''e'', CHR ''E''}"
  shows "StringToNumber (a # t) = NaN"
proof -
  have wa: "\<not> isWhiteSpace a" using a by (auto simp: isWhiteSpace_def)
  have wz: "\<not> isWhiteSpace (last (a # t))" using z by (auto simp: isWhiteSpace_def)
  have "rev (a # t) = last (a # t) # rev (butlast (a # t))"
    by (metis append_butlast_last_id list.distinct(1) rev.simps(2) rev_append rev_singleton_conv append_Cons append_Nil)
  then have "dropWhile isWhiteSpace (rev (a # t)) = rev (a # t)" using wz by simp
  then have tr: "trim (a # t) = a # t" using wa by (simp add: trim_def)
  have rp: "radixPrefix (a # t) = None" using a by (auto simp: radixPrefix_def split: list.splits)
  have dg: "\<not> isRadixDigit 10 a" using a by (auto simp: isRadixDigit_def digitValue_def)
  have sd: "scanDecimal (a # t) = None" using a dg by (auto simp: scanDecimal_def)
  have su: "scanUnsigned (a # t) = None" using a sd by (auto simp: scanUnsigned_def)
  have "scanSigned (a # t) = None" using a su by (auto simp: scanSigned_def)
  with tr rp show ?thesis by (simp add: StringToNumber_def)
qed

lemma isBooleanValue_not_number: "isBooleanValue s \<Longrightarrow> StringToNumber s = NaN"
proof -
  assume "isBooleanValue s"
  then consider "map lowerChar s = ''true''" | "map lowerChar s = ''false''"
    by (auto simp: isBooleanValue_def toLowerCase_def)
  then show ?thesis
  proof cases
    case 1
    then obtain a b c d where s: "s = [a, b, c, d]" and "lowerChar a = CHR ''t''" "lowerChar d = CHR ''e''"
      by (auto simp: map_eq_Cons_conv)
    then show ?thesis using letter_not_number [of a "[b, c, d]"] lowerChar_t [of a] lowerChar_e [of d] by auto
  next
    case 2
    then obtain a b c d e where s: "s = [a, b, c, d, e]" and "lowerChar a = CHR ''f''" "lowerChar e = CHR ''e''"
      by (auto simp: map_eq_Cons_conv)
    then show ?thesis using letter_not_number [of a "[b, c, d, e]"] lowerChar_f [of a] lowerChar_e [of e] by auto
  qed
qed


lemma isNumericValue_iff:
  "s \<noteq> [] \<Longrightarrow>
   isNumericValue s =
     (CHR ''-'' \<notin> set s \<and> CHR ''*'' \<notin> set s \<and> CHR ''^'' \<notin> set s \<and> CHR ''/'' \<notin> set s \<and>
      CHR ''%'' \<notin> set s \<and> (CHR ''+'' \<in> set s \<longrightarrow> CHR ''+'' \<in> set (take 2 s)) \<and>
      isFinite (StringToNumber s))"
proof -
  have fin: "(if isNaN n then False else isFinite n) = isFinite n" for n
    by (cases n) simp_all
  show ?thesis
    using indexOf_char_found [of s] indexOf_char_past1 [of s "CHR ''+''"]
    by (auto simp: isNumericValue_def Let_def fin)
qed

lemmas scan_defs = StringToNumber_def trim_def isWhiteSpace_def radixPrefix_def scanSigned_def
  scanUnsigned_def scanDecimal_def isRadixDigit_def digitValue_def scanExponent_def radixValue_def
  parseFloat_def parseInt_def


text \<open>
  Claim C1, as the code has it. For every string \<open>s\<close>, \<^verbatim>\<open>getCorrectValue\<close> promotes
  \<open>s\<close> to a number exactly when \<open>s\<close> is not empty, holds no \<^verbatim>\<open>-\<close>, \<^verbatim>\<open>*\<close>,
  \<^verbatim>\<open>^\<close>, \<^verbatim>\<open>/\<close> or \<^verbatim>\<open>%\<close> at any position (position 0 included), has its first
  \<^verbatim>\<open>+\<close>, if any, at position 0 or 1, and \<^verbatim>\<open>Number(s)\<close> is a finite number. A
  promoted string that starts with \<^verbatim>\<open>0x\<close> is read by \<^verbatim>\<open>parseInt\<close>, every other
  promoted string by \<^verbatim>\<open>parseFloat\<close>.
\<close>

theorem C1_getCorrectValue_promotes:
  "((\<exists>n. getCorrectValue (JStr s) = JNum n) =
      (s \<noteq> [] \<and> CHR ''-'' \<notin> set s \<and> CHR ''*'' \<notin> set s \<and> CHR ''^'' \<notin> set s \<and>
       CHR ''/'' \<notin> set s \<and> CHR ''%'' \<notin> set s \<and>
       (CHR ''+'' \<in> set s \<longrightarrow> CHR ''+'' \<in> set (take 2 s)) \<and>
       isFinite (StringToNumber s)))
   \<and> ((\<exists>n. getCorrectValue (JStr s) = JNum n) \<longrightarrow>
        getCorrectValue (JStr s) = JNum (if take 2 s = ''0x'' then parseInt s else parseFloat s))"
proof (cases "s = []")
  case True
  then show ?thesis by (simp add: getCorrectValue_def)
next
  case False
  show ?thesis
  proof (cases "isBooleanValue s")
    case True
    then have "StringToNumber s = NaN" by (rule isBooleanValue_not_number)
    with True False show ?thesis by (simp add: getCorrectValue_def)
  next
    case nb: False
    have z: "(indexOf s ''0x'' = 0) = (take 2 s = ''0x'')"
      using indexOf_zero [OF False, of "''0x''"] by (simp add: numeral_2_eq_2)
    show ?thesis
      using False nb isNumericValue_iff [OF False] z
      by (auto simp: getCorrectValue_def)
  qed
qed

theorem C1_getCorrectValue_promotes_witness:
  "getCorrectValue (JStr ''0x1F'') = JNum (Fin 31)
   \<and> getCorrectValue (JStr ''+5'') = JNum (Fin 5)
   \<and> getCorrectValue (JStr ''2.5'') = JNum (Fin (5 / 2))
   \<and> (\<nexists>n. getCorrectValue (JStr ''3-5 years'') = JNum n)
   \<and> (\<nexists>n. getCorrectValue (JStr ''1e+5'') = JNum n)"
  using C1_getCorrectValue_promotes [of "''0x1F''"] C1_getCorrectValue_promotes [of "''+5''"]
    C1_getCorrectValue_promotes [of "''2.5''"] C1_getCorrectValue_promotes [of "''3-5 years''"]
    C1_getCorrectValue_promotes [of "''1e+5''"]
  by (simp add: scan_defs toDouble_small)


text \<open>
  The claim as the specification words it allows a sign at position 0 and names
  \<^verbatim>\<open>"-5"\<close>: no glyph stands outside position 0 and \<^verbatim>\<open>Number("-5")\<close> is \<open>-5\<close>, yet
  \<^verbatim>\<open>isNumericValue\<close> refuses the string for its \<^verbatim>\<open>-\<close> (\<^verbatim>\<open>indexOf("-") > -1\<close>) and
  the literal stays the string \<^verbatim>\<open>"-5"\<close>.
\<close>

theorem C1_leading_minus_counterexample:
  "spec_isNumeric ''-5'' \<and> StringToNumber ''-5'' = Fin (- 5)
   \<and> getCorrectValue (JStr ''-5'') = JStr ''-5''
   \<and> getCorrectValue (JStr ''-5'') \<noteq> JNum (Fin (- 5))"
  by (simp add: spec_isNumeric_def scan_defs toDouble_small getCorrectValue_def isBooleanValue_def
      toLowerCase_def lowerChar_def isNumericValue_def indexOf_def)

section \<open>The unary operators\<close>

lemma unary_empty_cases:
  "unary_empty v =
     (v = JUndefined \<or> v = JNull \<or> v = JBool False \<or> v = JNum (Fin 0) \<or> v = JNum NaN \<or> v = JStr [])"
  by (cases v) (auto simp: unary_empty_def)

text \<open>
  Claim C4, as the code has it. The operators \<^verbatim>\<open>empty\<close> and \<^verbatim>\<open>notempty\<close> treat
  exactly \<^verbatim>\<open>undefined\<close>, \<^verbatim>\<open>null\<close>, \<^verbatim>\<open>false\<close>, \<^verbatim>\<open>0\<close>, \<^verbatim>\<open>NaN\<close> and the empty
  string as empty: \<^verbatim>\<open>empty\<close> is true and \<^verbatim>\<open>notempty\<close> is false for these values and
  for no other. In particular no sequence is empty for them, the empty sequence
  included. \<^verbatim>\<open>negate\<close> is logical NOT of the truthiness of its argument.
\<close>

theorem C4_unary_operators:
  "unary_empty v = (v \<in> {JUndefined, JNull, JBool False, JNum (Fin 0), JNum NaN, JStr []})
   \<and> unary_notempty v = (v \<notin> {JUndefined, JNull, JBool False, JNum (Fin 0), JNum NaN, JStr []})
   \<and> unary_empty (JArr xs) = False
   \<and> unary_notempty (JArr xs) = True
   \<and> unary_negate v = (\<not> truthy v)
   \<and> unaryFunctions ''empty'' = Some (\<lambda>v. JBool (unary_empty v))
   \<and> unaryFunctions ''notempty'' = Some (\<lambda>v. JBool (unary_notempty v))
   \<and> unaryFunctions ''negate'' = Some (\<lambda>v. JBool (unary_negate v))"
  by (simp add: unary_empty_cases unary_notempty_def unary_negate_def unaryFunctions_def)

theorem C4_unary_operators_witness:
  "unary_empty (JNum (Fin 0)) \<and> unary_empty (JStr []) \<and> unary_empty JNull \<and> unary_empty JUndefined
   \<and> \<not> unary_notempty (JNum (Fin 0)) \<and> \<not> unary_notempty (JStr [])
   \<and> \<not> unary_empty (JStr ''a'') \<and> \<not> unary_empty (JArr [JNum (Fin 1)])
   \<and> unary_negate (JBool False)"
  using C4_unary_operators [of "JNum (Fin 0)" "[]"] C4_unary_operators [of "JStr []" "[]"]
    C4_unary_operators [of JNull "[]"] C4_unary_operators [of JUndefined "[]"]
    C4_unary_operators [of "JStr ''a''" "[JNum (Fin 1)]"]
    C4_unary_operators [of "JBool False" "[]"]
  by simp

text \<open>
  The claim as the specification words it counts the empty sequence among the empty
  values. The code does not: \<^verbatim>\<open>[] == null\<close> is false and \<^verbatim>\<open>![]\<close> is false, so
  \<^verbatim>\<open>empty([])\<close> is false and \<^verbatim>\<open>notempty([])\<close> is true.
\<close>

theorem C4_empty_array_counterexample:
  "\<not> (unary_empty (JArr []) = True \<and> unary_notempty (JArr []) = False)"
  by (simp add: unary_empty_def unary_notempty_def)

section \<open>Construction of operands\<close>

lemma new_BinaryOperand_unknown:
  "binaryFunctions H opname = None \<Longrightarrow>
   new_BinaryOperand H opname l r False = Inl (throwInvalidOperatorError opname)"
  by (simp add: new_BinaryOperand_def)

lemma new_UnaryOperand_unknown:
  "unaryFunctions opname = None \<Longrightarrow>
   new_UnaryOperand e opname = Inl (throwInvalidOperatorError opname)"
  by (simp add: new_UnaryOperand_def)

text \<open>
  Claim C2 asks that an unknown operator name fails when the operand is constructed,
  whatever the arithmetic flag. The constructor's check \<^verbatim>\<open>this.consumer == null\<close>
  does that for a comparison, logical or set operand and for a unary operand (the two
  lemmas above). With \<^verbatim>\<open>isArithmeticOp\<close> set the consumer is the closure that
  \<^verbatim>\<open>arithmeticOp\<close> returns for every name, so the check never fires: for every name
  that is not a key of the table the operand is constructed, and its evaluation gives
  \<^verbatim>\<open>null\<close>.
\<close>

theorem C2_arithmetic_operand_unknown_operator:
  "binaryFunctions H opname = None \<Longrightarrow>
   new_BinaryOperand H opname l r True =
     Inr \<lparr>operatorName = opname, left_operand = l, right_operand = r, consumer = arithmeticOp H opname\<rparr>
   \<and> BinaryOperand_evaluate ev
        \<lparr>operatorName = opname, left_operand = l, right_operand = r, consumer = arithmeticOp H opname\<rparr> = Value JNull"
  by (simp add: new_BinaryOperand_def BinaryOperand_evaluate_def arithmeticOp_def Let_def)

theorem C2_arithmetic_operand_unknown_operator_witness:
  "binaryFunctions specHelpers ''foo'' = None
   \<and> new_BinaryOperand specHelpers ''foo'' (None :: unit option) None False
       = Inl (Error (''Invalid operator: '' @ [CHR 0x27] @ ''foo'' @ [CHR 0x27]))
   \<and> new_BinaryOperand specHelpers ''foo'' (None :: unit option) None True
       = Inr \<lparr>operatorName = ''foo'', left_operand = None, right_operand = None,
              consumer = arithmeticOp specHelpers ''foo''\<rparr>
   \<and> BinaryOperand_evaluate (\<lambda>u. JNull)
        \<lparr>operatorName = ''foo'', left_operand = (None :: unit option), right_operand = None,
         consumer = arithmeticOp specHelpers ''foo''\<rparr> = Value JNull"
proof -
  have n: "binaryFunctions specHelpers ''foo'' = None" by (simp add: binaryFunctions_def)
  show ?thesis
    using n C2_arithmetic_operand_unknown_operator [OF n, of "None :: unit option" None "\<lambda>u. JNull"]
      new_BinaryOperand_unknown [OF n, of "None :: unit option" None]
    by (simp add: throwInvalidOperatorError_def)
qed

section \<open>Arithmetic operators\<close>

lemma div_mod_zero:
  "isValueEmpty H b \<or> b = JNum (Fin 0) \<Longrightarrow>
   arithmeticOp H ''div'' a b = Value JNull \<and> arithmeticOp H ''mod'' a b = Value JNull"
  by (auto simp: arithmeticOp_def binaryFunctions_def div_op_def mod_op_def Let_def)

text \<open>
  Claim C5. For the arithmetic operators \<^verbatim>\<open>plus\<close>, \<^verbatim>\<open>minus\<close>, \<^verbatim>\<open>mul\<close>, \<^verbatim>\<open>div\<close>,
  \<^verbatim>\<open>mod\<close> and \<^verbatim>\<open>power\<close>, the function \<^verbatim>\<open>arithmeticOp\<close> builds replaces an empty
  operand by \<^verbatim>\<open>0\<close> and then applies the operator; \<^verbatim>\<open>div\<close> and \<^verbatim>\<open>mod\<close> with an
  empty or zero right operand return \<^verbatim>\<open>null\<close>; \<^verbatim>\<open>div(10,0)\<close> and \<^verbatim>\<open>mod(7,0)\<close> are
  \<^verbatim>\<open>null\<close>, and \<^verbatim>\<open>plus(null,3)\<close> is \<^verbatim>\<open>3\<close> (for a helper module that finds
  \<^verbatim>\<open>null\<close> empty and \<^verbatim>\<open>3\<close> not).
\<close>

theorem C5_arithmetic_operators:
  "(let z = (\<lambda>v. if isValueEmpty H v then JNum (Fin 0) else v) in
      arithmeticOp H ''plus'' a b = Value (js_add (z a) (z b))
    \<and> arithmeticOp H ''minus'' a b = Value (js_sub (z a) (z b))
    \<and> arithmeticOp H ''mul'' a b = Value (js_mul (z a) (z b))
    \<and> arithmeticOp H ''div'' a b = Value (div_op (z a) (z b))
    \<and> arithmeticOp H ''mod'' a b = Value (mod_op (z a) (z b))
    \<and> arithmeticOp H ''power'' a b = Value (js_pow (z a) (z b)))
   \<and> (isValueEmpty H b \<or> b = JNum (Fin 0) \<longrightarrow>
        arithmeticOp H ''div'' a b = Value JNull \<and> arithmeticOp H ''mod'' a b = Value JNull)
   \<and> arithmeticOp H ''div'' (JNum (Fin 10)) (JNum (Fin 0)) = Value JNull
   \<and> arithmeticOp H ''mod'' (JNum (Fin 7)) (JNum (Fin 0)) = Value JNull
   \<and> (isValueEmpty H JNull \<and> \<not> isValueEmpty H (JNum (Fin 3)) \<longrightarrow>
        arithmeticOp H ''plus'' JNull (JNum (Fin 3)) = Value (JNum (Fin 3)))"
proof -
  have ops: "arithmeticOp H ''plus'' a b =
      Value (js_add (if isValueEmpty H a then JNum (Fin 0) else a) (if isValueEmpty H b then JNum (Fin 0) else b))"
    "arithmeticOp H ''minus'' a b =
      Value (js_sub (if isValueEmpty H a then JNum (Fin 0) else a) (if isValueEmpty H b then JNum (Fin 0) else b))"
    "arithmeticOp H ''mul'' a b =
      Value (js_mul (if isValueEmpty H a then JNum (Fin 0) else a) (if isValueEmpty H b then JNum (Fin 0) else b))"
    "arithmeticOp H ''div'' a b =
      Value (div_op (if isValueEmpty H a then JNum (Fin 0) else a) (if isValueEmpty H b then JNum (Fin 0) else b))"
    "arithmeticOp H ''mod'' a b =
      Value (mod_op (if isValueEmpty H a then JNum (Fin 0) else a) (if isValueEmpty H b then JNum (Fin 0) else b))"
    "arithmeticOp H ''power'' a b =
      Value (js_pow (if isValueEmpty H a then JNum (Fin 0) else a) (if isValueEmpty H b then JNum (Fin 0) else b))"
    by (simp_all add: arithmeticOp_def binaryFunctions_def Let_def)
  have plus: "arithmeticOp H ''plus'' JNull (JNum (Fin 3)) = Value (JNum (Fin 3))"
    if "isValueEmpty H JNull" "\<not> isValueEmpty H (JNum (Fin 3))"
    using that by (simp add: arithmeticOp_def binaryFunctions_def Let_def js_add_def toDouble_small)
  show ?thesis
    using ops plus div_mod_zero [of H b a] div_mod_zero [of H "JNum (Fin 0)" "JNum (Fin 10)"]
      div_mod_zero [of H "JNum (Fin 0)" "JNum (Fin 7)"]
    by (simp add: Let_def)
qed

theorem C5_arithmetic_operators_witness:
  "arithmeticOp specHelpers ''div'' (JNum (Fin 10)) (JNum (Fin 0)) = Value JNull
   \<and> arithmeticOp specHelpers ''mod'' (JNum (Fin 7)) (JNum (Fin 0)) = Value JNull
   \<and> arithmeticOp specHelpers ''div'' (JNum (Fin 10)) JUndefined = Value JNull
   \<and> arithmeticOp specHelpers ''plus'' JNull (JNum (Fin 3)) = Value (JNum (Fin 3))
   \<and> arithmeticOp specHelpers ''minus'' (JStr []) (JNum (Fin 3)) = Value (JNum (Fin (- 3)))
   \<and> arithmeticOp specHelpers ''div'' (JNum (Fin 10)) (JNum (Fin 4)) = Value (JNum (Fin (5 / 2)))"
  using C5_arithmetic_operators [of specHelpers JNull "JNum (Fin 3)"]
    C5_arithmetic_operators [of specHelpers "JNum (Fin 10)" JUndefined]
    C5_arithmetic_operators [of specHelpers "JStr []" "JNum (Fin 3)"]
    C5_arithmetic_operators [of specHelpers "JNum (Fin 10)" "JNum (Fin 4)"]
  by (simp add: specHelpers_def spec_isValueEmpty_def Let_def js_sub_def num_sub_def div_op_def
      js_div_def toDouble_small)

section \<open>Set operators\<close>














section \<open>The regex validator\<close>

lemma regexLoop_None: "(regexLoop v re xs name = None) = (\<forall>x\<in>set xs. re (toStr x))"
  by (induction xs) (auto simp: hasError_def)

lemma regexLoop_Some:
  "regexLoop v re xs name = Some res \<Longrightarrow>
   \<exists>ys x zs. xs = ys @ x # zs \<and> (\<forall>y\<in>set ys. re (toStr y)) \<and> \<not> re (toStr x) \<and>
     res = \<lparr>result_value = x, result_error = Some (createCustomError v name)\<rparr>"
proof (induction xs)
  case Nil
  then show ?case by simp
next
  case (Cons a xs)
  show ?case
  proof (cases "re (toStr a)")
    case True
    with Cons.prems have "regexLoop v re xs name = Some res" by (simp add: hasError_def)
    from Cons.IH [OF this] obtain ys x zs where
      "xs = ys @ x # zs" "\<forall>y\<in>set ys. re (toStr y)" "\<not> re (toStr x)"
      "res = \<lparr>result_value = x, result_error = Some (createCustomError v name)\<rparr>" by blast
    with True have "a # xs = (a # ys) @ x # zs \<and> (\<forall>y\<in>set (a # ys). re (toStr y)) \<and> \<not> re (toStr x) \<and>
      res = \<lparr>result_value = x, result_error = Some (createCustomError v name)\<rparr>" by simp
    then show ?thesis by blast
  next
    case False
    with Cons.prems have "res = \<lparr>result_value = a, result_error = Some (createCustomError v name)\<rparr>"
      by (simp add: hasError_def)
    with False have "a # xs = [] @ a # xs \<and> (\<forall>y\<in>set []. re (toStr y)) \<and> \<not> re (toStr a) \<and>
      res = \<lparr>result_value = a, result_error = Some (createCustomError v name)\<rparr>" by simp
    then show ?thesis by blast
  qed
qed

text \<open>
  Claim C6 asks that a sequence passes the regex validator iff every element matches,
  with no further check on the sequence as a whole. The loop over the elements returns
  the first failing element, as the claim says; but when every element matches, the
  function goes on to \<^verbatim>\<open>return this.hasError(re, value, name)\<close> with the sequence
  itself, whose string is its elements joined by commas. So, for a pattern that is
  not empty and a sequence that is not empty, the validator succeeds iff every element
  matches and the string of the whole sequence matches too; when only the latter
  fails, the error is reported for the whole sequence.
\<close>

theorem C6_regex_validator_sequence:
  "regex v = Some p \<and> p \<noteq> [] \<and> \<not> isValueEmpty H (JArr xs) \<longrightarrow>
     ((RegexValidator_validate H (Inr re) v (JArr xs) name = Inr None) =
        ((\<forall>x\<in>set xs. re (toStr x)) \<and> re (toStr (JArr xs))))
     \<and> ((\<forall>x\<in>set xs. re (toStr x)) \<and> \<not> re (toStr (JArr xs)) \<longrightarrow>
          RegexValidator_validate H (Inr re) v (JArr xs) name =
            Inr (Some \<lparr>result_value = JArr xs, result_error = Some (createCustomError v name)\<rparr>))"
proof (intro impI)
  assume a: "regex v = Some p \<and> p \<noteq> [] \<and> \<not> isValueEmpty H (JArr xs)"
  show "((RegexValidator_validate H (Inr re) v (JArr xs) name = Inr None) =
        ((\<forall>x\<in>set xs. re (toStr x)) \<and> re (toStr (JArr xs))))
     \<and> ((\<forall>x\<in>set xs. re (toStr x)) \<and> \<not> re (toStr (JArr xs)) \<longrightarrow>
          RegexValidator_validate H (Inr re) v (JArr xs) name =
            Inr (Some \<lparr>result_value = JArr xs, result_error = Some (createCustomError v name)\<rparr>))"
  proof (cases "regexLoop v re xs name")
    case None
    then have "\<forall>x\<in>set xs. re (toStr x)" by (simp add: regexLoop_None)
    with a None show ?thesis by (simp add: RegexValidator_validate_def hasError_def)
  next
    case (Some res)
    then have "\<not> (\<forall>x\<in>set xs. re (toStr x))" using regexLoop_None [of v re xs name] by simp
    with a Some show ?thesis by (auto simp: RegexValidator_validate_def)
  qed
qed

theorem C6_regex_validator_sequence_witness:
  "RegexValidator_validate specHelpers (Inr lowercaseWord)
     \<lparr>errorText = ''letters only'', regex = Some ''^[a-z]+$''\<rparr> (JArr [JStr ''ab'', JStr ''cd'']) ''q1''
   = Inr (Some \<lparr>result_value = JArr [JStr ''ab'', JStr ''cd''],
                result_error = Some (CustomError ''letters only'')\<rparr>)
   \<and> lowercaseWord ''ab'' \<and> lowercaseWord ''cd'' \<and> \<not> lowercaseWord ''ab,cd''"
  using C6_regex_validator_sequence [of "\<lparr>errorText = ''letters only'', regex = Some ''^[a-z]+$''\<rparr>"
      "''^[a-z]+$''" specHelpers "[JStr ''ab'', JStr ''cd'']" lowercaseWord "''q1''"]
  by (simp add: specHelpers_def spec_isValueEmpty_def lowercaseWord_def createCustomError_def
      getErrorText_def)

section \<open>The validator runner\<close>

lemma runLoop_all:
  "\<forall>v\<in>set vs. \<exists>r. callValidator owner v = Inr r \<Longrightarrow>
   runLoop owner vs res =
     Inr (res @ concat (map (\<lambda>v. case callValidator owner v of
                                  Inr (Some r) \<Rightarrow> (case result_error r of Some e \<Rightarrow> [e] | None \<Rightarrow> [])
                                | _ \<Rightarrow> []) vs))"
proof (induction vs arbitrary: res)
  case Nil
  then show ?case by simp
next
  case (Cons v vs)
  from Cons.prems obtain r where r: "callValidator owner v = Inr r" by auto
  from Cons.prems have rest: "\<forall>v\<in>set vs. \<exists>r. callValidator owner v = Inr r" by simp
  show ?case
    using r Cons.IH [OF rest] by (simp split: option.splits)
qed

lemma runLoop_throws:
  "(\<exists>e. runLoop owner vs res = Inl e) = (\<exists>v\<in>set vs. \<exists>e. callValidator owner v = Inl e)"
proof (induction vs arbitrary: res)
  case Nil
  then show ?case by simp
next
  case (Cons v vs)
  show ?case
  proof (cases "callValidator owner v")
    case (Inl e)
    then show ?thesis by auto
  next
    case (Inr r)
    then show ?thesis using Cons.IH by auto
  qed
qed

text \<open>
  Claim C7. \<^verbatim>\<open>ValidatorRunner.run\<close> calls every validator of the owner in
  registration order: a single-value validator (\<^verbatim>\<open>isValidateAllValues\<close> false)
  through \<^verbatim>\<open>validate\<close> with the value and the title, a whole-dataset validator
  (\<^verbatim>\<open>isValidateAllValues\<close> true) through \<^verbatim>\<open>validateAllValues\<close> with the value,
  the filtered values, the filtered properties and the title. A failure is a result and
  never ends the loop, so whenever these calls return, the runner returns the errors of
  all the failing ones, in that order. The runner throws only when one of these calls
  itself throws.
\<close>

theorem C7_validator_runner:
  "(let invoke = (\<lambda>v. if isValidateAllValues v
                       then validateAllValues v (validatedValue owner) (getDataFilteredValues owner)
                              (getDataFilteredProperties owner) (getValidatorTitle owner)
                       else validate v (validatedValue owner) (getValidatorTitle owner))
    in ((\<forall>v\<in>set (validators owner). \<exists>r. invoke v = Inr r) \<longrightarrow>
          run owner =
            Inr (concat (map (\<lambda>v. case invoke v of
                                     Inr (Some r) \<Rightarrow> (case result_error r of Some e \<Rightarrow> [e] | None \<Rightarrow> [])
                                   | _ \<Rightarrow> []) (validators owner))))
       \<and> ((\<exists>e. run owner = Inl e) = (\<exists>v\<in>set (validators owner). \<exists>e. invoke v = Inl e)))"
proof -
  have routing: "callValidator owner =
      (\<lambda>v. if isValidateAllValues v
           then validateAllValues v (validatedValue owner) (getDataFilteredValues owner)
                  (getDataFilteredProperties owner) (getValidatorTitle owner)
           else validate v (validatedValue owner) (getValidatorTitle owner))"
    by (rule ext) (simp add: callValidator_def)
  show ?thesis
    unfolding Let_def routing [symmetric]
    using runLoop_all [of "validators owner" owner "[]"]
      runLoop_throws [of owner "validators owner" "[]"]
    by (simp add: run_def)
qed

theorem C7_validator_runner_witness:
  "run \<lparr>validators =
           [regexValidatorObject specHelpers (Inr lowercaseWord)
              \<lparr>errorText = ''first'', regex = Some ''^[a-z]+$''\<rparr>,
            expressionValidatorObject
              (\<lambda>vals props. Inr (JBool (map_of vals ''q2'' = Some (JStr ''yes'')))) ''invalid''
              \<lparr>expressionText = ''second'', validatorExpression = ''{q2} = yes''\<rparr>,
            regexValidatorObject specHelpers (Inr (\<lambda>s. True))
              \<lparr>errorText = ''third'', regex = Some ''.*''\<rparr>,
            expressionValidatorObject
              (\<lambda>vals props. Inr (JBool (map_of vals ''q1'' = Some (JStr ''A1'')))) ''invalid''
              \<lparr>expressionText = ''fourth'', validatorExpression = ''{q1} = A1''\<rparr>,
            expressionValidatorObject
              (\<lambda>vals props. Inr (JBool (props = ''survey''))) ''invalid''
              \<lparr>expressionText = [], validatorExpression = ''false''\<rparr>],
         validatedValue = JStr ''A1'', getValidatorTitle = ''q1'',
         getDataFilteredValues = [(''q1'', JStr ''A1''), (''q2'', JStr ''no'')],
         getDataFilteredProperties = ''question''\<rparr>
   = Inr [CustomError ''first'', CustomError ''second'', CustomError ''invalid'']"
  using C7_validator_runner [of "\<lparr>validators =
           [regexValidatorObject specHelpers (Inr lowercaseWord)
              \<lparr>errorText = ''first'', regex = Some ''^[a-z]+$''\<rparr>,
            expressionValidatorObject
              (\<lambda>vals props. Inr (JBool (map_of vals ''q2'' = Some (JStr ''yes'')))) ''invalid''
              \<lparr>expressionText = ''second'', validatorExpression = ''{q2} = yes''\<rparr>,
            regexValidatorObject specHelpers (Inr (\<lambda>s. True))
              \<lparr>errorText = ''third'', regex = Some ''.*''\<rparr>,
            expressionValidatorObject
              (\<lambda>vals props. Inr (JBool (map_of vals ''q1'' = Some (JStr ''A1'')))) ''invalid''
              \<lparr>expressionText = ''fourth'', validatorExpression = ''{q1} = A1''\<rparr>,
            expressionValidatorObject
              (\<lambda>vals props. Inr (JBool (props = ''survey''))) ''invalid''
              \<lparr>expressionText = [], validatorExpression = ''false''\<rparr>],
         validatedValue = JStr ''A1'', getValidatorTitle = ''q1'',
         getDataFilteredValues = [(''q1'', JStr ''A1''), (''q2'', JStr ''no'')],
         getDataFilteredProperties = ''question''\<rparr>"]
  by (simp add: Let_def regexValidatorObject_def expressionValidatorObject_def
      ExpressionValidator_validateAllValues_def RegexValidator_validate_def hasError_def
      specHelpers_def spec_isValueEmpty_def lowercaseWord_def createCustomError_def getErrorText_def)

section \<open>Setting an unchanged value\<close>

text \<open>
  Claim C10. When \<^verbatim>\<open>setValue(name, v)\<close> is called with a value that the
  value-changing hook returns unchanged and that equals the stored value of the name
  under \<^verbatim>\<open>isValueEqual\<close> (the empty string and \<^verbatim>\<open>undefined\<close> counting as
  \<^verbatim>\<open>null\<close>), the call returns the survey as it was: the value store, the questions
  and the trace are the same, so no trigger was evaluated, no condition was run and no
  notification was issued. The second test of the guard compares the value with
  itself under the helper's equality, which is the third hypothesis.
\<close>

theorem C10_setValue_unchanged:
  "questionOnValueChanging E s name v = v \<and> isValueEqual (helpers E) s name v \<and>
   isTwoValueEquals (helpers E) v v False \<longrightarrow>
     setValue E s name v locNotification = Inr s"
  by (simp add: setValue_def)

theorem C10_setValue_unchanged_witness:
  "setValue exampleCollaborators exampleSurvey ''q1'' (JNum (Fin 5)) False = Inr exampleSurvey
   \<and> setValue exampleCollaborators exampleSurvey ''q1'' (JStr ''5'') False = Inr exampleSurvey
   \<and> setValue exampleCollaborators exampleSurvey ''q2'' (JStr []) False = Inr exampleSurvey"
  using C10_setValue_unchanged [of exampleCollaborators exampleSurvey "''q1''" "JNum (Fin 5)" False]
    C10_setValue_unchanged [of exampleCollaborators exampleSurvey "''q1''" "JStr ''5''" False]
    C10_setValue_unchanged [of exampleCollaborators exampleSurvey "''q2''" "JStr []" False]
  by (simp add: exampleCollaborators_def exampleSurvey_def questionOnValueChanging_def
      isValueEqual_def getValue_def specHelpers_def scan_defs toDouble_small)

lemma setValue_changed_example:
  "\<exists>s. setValue exampleCollaborators exampleSurvey ''q1'' (JNum (Fin 7)) False = Inr s
     \<and> valuesHash s ''q1'' = Some (JNum (Fin 7))
     \<and> events s = [QuestionUpdateValueFromSurvey ''q1'' (JNum (Fin 7)), TriggerCheckExpression 7,
                    PageRunCondition ''page1'', PageRunCondition ''page2'', PageRunCondition ''page3'',
                    QuestionOnSurveyValueChanged ''q1'' (JNum (Fin 7)),
                    OnValueChanged ''q1'' (Some ''q1'') (JNum (Fin 7))]"
  by (simp add: setValue_def exampleCollaborators_def exampleSurvey_def questionOnValueChanging_def
      isValueEqual_def getValue_def specHelpers_def spec_isValueEmpty_def updateQuestionValue_def
      checkTriggers_def getFilteredValues_def logEvent_def runConditions_def
      notifyQuestionOnValueChanged_def tryGoNextPageAutomatic_def Let_def upt_rec)

section \<open>Triggers of a completed survey\<close>

lemma checkTriggers_completed: "isCompleted s \<Longrightarrow> checkTriggers E s key isOnNextPage = s"
  by (simp add: checkTriggers_def)

lemma runConditions_completed: "isCompleted s \<Longrightarrow> runConditions E s = s"
  by (simp add: runConditions_def)

lemma settled_set_currentPage: "settled T s \<Longrightarrow> settled T (set_currentPage E s p)"
  by (simp add: settled_def set_currentPage_def triggerCalls_def logEvent_def)

lemma settled_get_currentPage:
  "get_currentPage E s = (p, s') \<Longrightarrow> settled T s \<Longrightarrow> settled T s'"
  by (auto simp: get_currentPage_def Let_def settled_set_currentPage split: option.splits if_splits)

lemma settled_isLastPage: "isLastPage E s = (b, s') \<Longrightarrow> settled T s \<Longrightarrow> settled T s'"
  by (auto simp: isLastPage_def Let_def split: prod.splits if_splits
      dest: settled_get_currentPage)

lemma settled_getCurrentPageQuestions:
  "getCurrentPageQuestions E s = (qs, s') \<Longrightarrow> settled T s \<Longrightarrow> settled T s'"
  by (auto simp: getCurrentPageQuestions_def Let_def split: prod.splits option.splits
      dest: settled_get_currentPage)

lemma settled_checkOnPageTriggers: "settled T s \<Longrightarrow> settled T (checkOnPageTriggers E s)"
proof -
  assume a: "settled T s"
  obtain qs s1 where g: "getCurrentPageQuestions E s = (qs, s1)" by (cases "getCurrentPageQuestions E s")
  from settled_getCurrentPageQuestions [OF g a] have s1: "settled T s1" .
  then have "isCompleted s1" by (simp add: settled_def)
  with g s1 show ?thesis by (simp add: checkOnPageTriggers_def Let_def checkTriggers_completed)
qed

lemma settled_doComplete: "settled T s \<Longrightarrow> settled T (doComplete E s)"
  by (simp add: settled_def doComplete_def Let_def triggerCalls_def logEvent_def setCompleted_def
      clearUnusedValues_def setCookie_def split: prod.splits)

lemma settled_doNextPage: "settled T s \<Longrightarrow> settled T (doNextPage E s)"
proof -
  assume a: "settled T s"
  have c: "settled T (checkOnPageTriggers E s)" by (rule settled_checkOnPageTriggers [OF a])
  then have "isCompleted (checkOnPageTriggers E s)" by (simp add: settled_def)
  with c show ?thesis by (simp add: doNextPage_def Let_def settled_doComplete)
qed

lemma settled_doServerValidation:
  "doServerValidation E s = Inr (b, s') \<Longrightarrow> settled T s \<Longrightarrow> settled T s'"
proof -
  assume d: "doServerValidation E s = Inr (b, s')" and a: "settled T s"
  obtain p s1 where g: "get_currentPage E s = (p, s1)" by (cases "get_currentPage E s")
  from settled_get_currentPage [OF g a] have s1: "settled T s1" .
  show ?thesis
  proof (cases "onServerValidateQuestions_isEmpty E")
    case True
    with d a show ?thesis by (simp add: doServerValidation_def)
  next
    case False
    with d g s1 show ?thesis
      by (auto simp: doServerValidation_def Let_def settled_def triggerCalls_def logEvent_def
          setIsValidatingOnServer_def split: option.splits)
  qed
qed

lemma settled_fireValidatedErrors:
  "fireValidatedErrorsOnCurrentPage E s = Inr s' \<Longrightarrow> settled T s \<Longrightarrow> settled T s'"
proof -
  assume d: "fireValidatedErrorsOnCurrentPage E s = Inr s'" and a: "settled T s"
  obtain p s1 where g: "get_currentPage E s = (p, s1)" by (cases "get_currentPage E s")
  from settled_get_currentPage [OF g a] have s1: "settled T s1" .
  with d g a show ?thesis
    by (auto simp: fireValidatedErrorsOnCurrentPage_def Let_def settled_def triggerCalls_def
        logEvent_def split: option.splits if_splits)
qed

lemma settled_questions_update: "settled T s \<Longrightarrow> settled T (s\<lparr>questions := qs\<rparr>)"
  by (simp add: settled_def triggerCalls_def)

lemma settled_checkIsCurrentPageHasErrors:
  "checkIsCurrentPageHasErrors E s = Inr (b, s') \<Longrightarrow> settled T s \<Longrightarrow> settled T s'"
proof -
  assume d: "checkIsCurrentPageHasErrors E s = Inr (b, s')" and a: "settled T s"
  obtain p s1 where g: "get_currentPage E s = (p, s1)" by (cases "get_currentPage E s")
  from settled_get_currentPage [OF g a] have s1: "settled T s1" .
  show ?thesis
  proof (cases p)
    case None
    with d g s1 show ?thesis by (simp add: checkIsCurrentPageHasErrors_def)
  next
    case (Some n)
    obtain res qs where h: "page_hasErrors E n s1 = (res, qs)" by (cases "page_hasErrors E n s1")
    from d g Some h obtain s2 where
      f: "fireValidatedErrorsOnCurrentPage E (s1\<lparr>questions := qs\<rparr>) = Inr s2" and e: "s' = s2"
      by (auto simp: checkIsCurrentPageHasErrors_def split: sum.splits)
    from settled_fireValidatedErrors [OF f settled_questions_update [OF s1]] e show ?thesis by simp
  qed
qed

lemma settled_nextPage: "nextPage E s = Inr (b, s') \<Longrightarrow> settled T s \<Longrightarrow> settled T s'"
proof -
  assume d: "nextPage E s = Inr (b, s')" and a: "settled T s"
  obtain last s1 where l: "isLastPage E s = (last, s1)" by (cases "isLastPage E s")
  from settled_isLastPage [OF l a] have s1: "settled T s1" .
  show ?thesis
  proof (cases last)
    case True
    with d l s1 show ?thesis by (simp add: nextPage_def)
  next
    case False
    obtain hasErrors s2 where
      c: "(if mode s1 = ''edit'' then checkIsCurrentPageHasErrors E s1 else Inr (False, s1))
            = Inr (hasErrors, s2)"
      using d l False by (auto simp: nextPage_def split: sum.splits)
    have s2: "settled T s2"
      using c s1 settled_checkIsCurrentPageHasErrors [of E s1 hasErrors s2 T]
      by (auto split: if_splits)
    show ?thesis
    proof (cases hasErrors)
      case True
      with d l False c s2 show ?thesis by (simp add: nextPage_def)
    next
      case nh: False
      obtain pending s3 where v: "doServerValidation E s2 = Inr (pending, s3)"
        using d l False c nh by (auto simp: nextPage_def split: sum.splits)
      from settled_doServerValidation [OF v s2] have s3: "settled T s3" .
      from d l False c nh v s3 show ?thesis
        by (auto simp: nextPage_def settled_doNextPage split: if_splits)
    qed
  qed
qed

lemma settled_completeLastPage:
  "completeLastPage E s = Inr (b, s') \<Longrightarrow> settled T s \<Longrightarrow> settled T s'"
proof -
  assume d: "completeLastPage E s = Inr (b, s')" and a: "settled T s"
  obtain hasErrors s1 where
    c: "(if mode s = ''edit'' then checkIsCurrentPageHasErrors E s else Inr (False, s))
          = Inr (hasErrors, s1)"
    using d by (auto simp: completeLastPage_def split: sum.splits)
  have s1: "settled T s1"
    using c a settled_checkIsCurrentPageHasErrors [of E s hasErrors s1 T]
    by (auto split: if_splits)
  show ?thesis
  proof (cases hasErrors)
    case True
    with d c s1 show ?thesis by (simp add: completeLastPage_def)
  next
    case nh: False
    obtain pending s2 where v: "doServerValidation E s1 = Inr (pending, s2)"
      using d c nh by (auto simp: completeLastPage_def split: sum.splits)
    from settled_doServerValidation [OF v s1] have s2: "settled T s2" .
    from d c nh v s2 show ?thesis
      by (auto simp: completeLastPage_def settled_doComplete split: if_splits)
  qed
qed

lemma map_sum_snd_Inr: "map_sum id snd x = Inr s' \<Longrightarrow> \<exists>b. x = Inr (b, s')"
  by (cases x) auto

lemma settled_tryGoNextPageAutomatic:
  "tryGoNextPageAutomatic E s name = Inr s' \<Longrightarrow> settled T s \<Longrightarrow> settled T s'"
proof -
  assume d: "tryGoNextPageAutomatic E s name = Inr s'" and a: "settled T s"
  show ?thesis
  proof (cases "isEndLoadingFromJson s \<noteq> None \<and> isEndLoadingFromJson s \<noteq> Some []
         \<or> \<not> truthy (goNextPageAutomatic s)")
    case True
    with d a show ?thesis by (simp add: tryGoNextPageAutomatic_def)
  next
    case c0: False
    obtain p s1 where g: "get_currentPage E s = (p, s1)" by (cases "get_currentPage E s")
    from settled_get_currentPage [OF g a] have s1: "settled T s1" .
    let ?f = "find (\<lambda>q. q_valueName q = name) (questions s1)"
    have d1: "(if p = None then Inr s1
               else (case ?f of
                       None \<Rightarrow> Inr s1
                     | Some q \<Rightarrow>
                         if \<not> q_visible q \<or> \<not> q_supportGoNextPageAutomatic q then Inr s1
                         else (let (qs, s2) = getCurrentPageQuestions E s1
                               in if q \<notin> set qs then Inr s2
                                  else if list_ex (\<lambda>x. q_hasInput x \<and>
                                            isValueEmpty (helpers E) (q_value x)) qs
                                  then Inr s2
                                  else (case checkIsCurrentPageHasErrors E s2 of
                                          Inl e \<Rightarrow> Inl e
                                        | Inr (hasErrors, s3) \<Rightarrow>
                                            if hasErrors then Inr s3
                                            else (let (last, s4) = isLastPage E s3
                                                  in if \<not> last then map_sum id snd (nextPage E s4)
                                                     else if goNextPageAutomatic s4 = JBool True
                                                     then map_sum id snd (completeLastPage E s4)
                                                     else Inr s4))))) = Inr s'"
      using d c0 g unfolding tryGoNextPageAutomatic_def by (simp only: if_False Let_def prod.case)
    show ?thesis
    proof (cases "p = None \<or> ?f = None")
      case True
      with d1 s1 show ?thesis by (auto split: option.splits)
    next
      case False
      then obtain q where f: "?f = Some q" and pn: "p \<noteq> None" by auto
      show ?thesis
      proof (cases "\<not> q_visible q \<or> \<not> q_supportGoNextPageAutomatic q")
        case True
        with d1 f pn s1 show ?thesis by simp
      next
        case vis: False
        obtain qs s2 where c: "getCurrentPageQuestions E s1 = (qs, s2)"
          by (cases "getCurrentPageQuestions E s1")
        from settled_getCurrentPageQuestions [OF c s1] have s2: "settled T s2" .
        have d2: "(if q \<notin> set qs then Inr s2
                   else if list_ex (\<lambda>x. q_hasInput x \<and> isValueEmpty (helpers E) (q_value x)) qs
                   then Inr s2
                   else (case checkIsCurrentPageHasErrors E s2 of
                           Inl e \<Rightarrow> Inl e
                         | Inr (hasErrors, s3) \<Rightarrow>
                             if hasErrors then Inr s3
                             else (let (last, s4) = isLastPage E s3
                                   in if \<not> last then map_sum id snd (nextPage E s4)
                                      else if goNextPageAutomatic s4 = JBool True
                                      then map_sum id snd (completeLastPage E s4)
                                      else Inr s4))) = Inr s'"
          using d1 f pn vis c by simp
        show ?thesis
        proof (cases "q \<notin> set qs \<or>
            list_ex (\<lambda>x. q_hasInput x \<and> isValueEmpty (helpers E) (q_value x)) qs")
          case True
          with d2 s2 show ?thesis by (auto split: if_splits)
        next
          case nq: False
          have d3: "(case checkIsCurrentPageHasErrors E s2 of
                           Inl e \<Rightarrow> Inl e
                         | Inr (hasErrors, s3) \<Rightarrow>
                             if hasErrors then Inr s3
                             else (let (last, s4) = isLastPage E s3
                                   in if \<not> last then map_sum id snd (nextPage E s4)
                                      else if goNextPageAutomatic s4 = JBool True
                                      then map_sum id snd (completeLastPage E s4)
                                      else Inr s4)) = Inr s'"
            using d2 nq by simp
          then obtain hasErrors s3 where h: "checkIsCurrentPageHasErrors E s2 = Inr (hasErrors, s3)"
            by (cases "checkIsCurrentPageHasErrors E s2") auto
          from settled_checkIsCurrentPageHasErrors [OF h s2] have s3: "settled T s3" .
          show ?thesis
          proof (cases hasErrors)
            case True
            with d3 h s3 show ?thesis by simp
          next
            case ne: False
            obtain last s4 where l: "isLastPage E s3 = (last, s4)" by (cases "isLastPage E s3")
            from settled_isLastPage [OF l s3] have s4: "settled T s4" .
            have d4: "(if \<not> last then map_sum id snd (nextPage E s4)
                       else if goNextPageAutomatic s4 = JBool True
                       then map_sum id snd (completeLastPage E s4)
                       else Inr s4) = Inr s'"
              using d3 h ne l by simp
            show ?thesis
            proof (cases last)
              case False
              with d4 have "map_sum id snd (nextPage E s4) = Inr s'" by simp
              from map_sum_snd_Inr [OF this] obtain b where "nextPage E s4 = Inr (b, s')"
                by (elim exE)
              from settled_nextPage [OF this s4] show ?thesis .
            next
              case True
              show ?thesis
              proof (cases "goNextPageAutomatic s4 = JBool True")
                case False
                with d4 True s4 show ?thesis by simp
              next
                case gt: True
                with d4 True have "map_sum id snd (completeLastPage E s4) = Inr s'" by simp
                from map_sum_snd_Inr [OF this] obtain b where "completeLastPage E s4 = Inr (b, s')"
                  by (elim exE)
                from settled_completeLastPage [OF this s4] show ?thesis .
              qed
            qed
          qed
        qed
      qed
    qed
  qed
qed

lemma updateQuestions_events:
  "updateQuestions H valueName newValue qs = (qs', evs) \<Longrightarrow>
   concat (map (\<lambda>e. case e of TriggerCheckExpression t \<Rightarrow> [t] | _ \<Rightarrow> []) evs) = []"
  by (induction qs arbitrary: qs' evs) (auto simp: Let_def split: prod.splits if_splits)

lemma settled_updateQuestionValue:
  "settled T s \<Longrightarrow> settled T (updateQuestionValue E s valueName newValue)"
  by (auto simp: updateQuestionValue_def settled_def triggerCalls_def Let_def
      split: prod.splits dest: updateQuestions_events)

lemma settled_logEvent:
  "settled T s \<Longrightarrow> (\<And>t. e \<noteq> TriggerCheckExpression t) \<Longrightarrow> settled T (logEvent e s)"
  by (cases e) (auto simp: settled_def triggerCalls_def logEvent_def)

lemma settled_notifyLoop:
  "notifyLoop E valueName newValue is s = Inr s' \<Longrightarrow> settled T s \<Longrightarrow> settled T s'"
proof (induction "is" arbitrary: s)
  case Nil
  then show ?case by simp
next
  case (Cons i "is")
  let ?q = "questions s ! i"
  obtain s2 where
    c: "(if checkErrorsMode s = ''onValueChanged'' then
                 (let oldErrorCount = length (q_errors ?q);
                      errs = question_hasErrors E ?q s;
                      s1 = s\<lparr>questions := (questions s)[i := ?q\<lparr>q_errors := errs\<rparr>]\<rparr>
                  in if oldErrorCount > 0 \<or> length errs > 0
                     then fireValidatedErrorsOnCurrentPage E s1
                     else Inr s1)
               else Inr s) = Inr s2"
    and r: "notifyLoop E valueName newValue is
               (logEvent (OnValueChanged valueName (Some (q_name ?q)) newValue)
                 (logEvent (QuestionOnSurveyValueChanged (q_name ?q) newValue) s2)) = Inr s'"
    using Cons.prems(1) by (auto simp: Let_def split: sum.splits)
  have s2: "settled T s2"
    using c Cons.prems(2) settled_questions_update [OF Cons.prems(2)]
      settled_fireValidatedErrors [of E _ s2 T]
    by (auto simp: Let_def split: if_splits)
  have "settled T (logEvent (OnValueChanged valueName (Some (q_name ?q)) newValue)
                 (logEvent (QuestionOnSurveyValueChanged (q_name ?q) newValue) s2))"
    by (intro settled_logEvent s2) simp_all
  from Cons.IH [OF r this] show ?case .
qed

lemma settled_notifyQuestionOnValueChanged:
  "notifyQuestionOnValueChanged E s valueName newValue = Inr s' \<Longrightarrow> settled T s \<Longrightarrow> settled T s'"
  by (auto simp: notifyQuestionOnValueChanged_def Let_def settled_logEvent
      split: if_splits dest: settled_notifyLoop)

lemma settled_valuesHash_update: "settled T s \<Longrightarrow> settled T (s\<lparr>valuesHash := m\<rparr>)"
  by (simp add: settled_def triggerCalls_def)

lemma settled_setValue:
  "setValue E s name v locNotification = Inr s' \<Longrightarrow> settled T s \<Longrightarrow> settled T s'"
proof -
  assume d: "setValue E s name v locNotification = Inr s'" and a: "settled T s"
  let ?nv = "questionOnValueChanging E s name v"
  show ?thesis
  proof (cases "isValueEqual (helpers E) s name ?nv \<and> isTwoValueEquals (helpers E) ?nv v False")
    case True
    with d a show ?thesis by (simp add: setValue_def Let_def)
  next
    case False
    let ?s1 = "if isValueEmpty (helpers E) ?nv
                 then s\<lparr>valuesHash := (valuesHash s)(name := None)\<rparr>
                 else s\<lparr>valuesHash := (valuesHash s)(name \<mapsto> getUnbindValue (helpers E) ?nv)\<rparr>"
    let ?v2 = "if isValueEmpty (helpers E) ?nv then ?nv else getUnbindValue (helpers E) ?nv"
    let ?s2 = "updateQuestionValue E ?s1 name ?v2"
    have s1: "settled T ?s1" using a by (simp add: settled_valuesHash_update)
    have s2: "settled T ?s2" by (rule settled_updateQuestionValue [OF s1])
    then have c2: "isCompleted ?s2" by (simp add: settled_def)
    show ?thesis
    proof (cases locNotification)
      case True
      with d False s2 show ?thesis by (simp add: setValue_def Let_def)
    next
      case nl: False
      from d False nl c2 obtain s5 where
        n: "notifyQuestionOnValueChanged E ?s2 name ?v2 = Inr s5"
        and t: "tryGoNextPageAutomatic E s5 name = Inr s'"
        by (auto simp: setValue_def Let_def checkTriggers_completed runConditions_completed
            split: sum.splits)
      from settled_notifyQuestionOnValueChanged [OF n s2] have "settled T s5" .
      from settled_tryGoNextPageAutomatic [OF t this] show ?thesis .
    qed
  qed
qed

text \<open>
  Claim C9. In a completed survey \<^verbatim>\<open>checkTriggers\<close> returns at once, whatever the
  keys and the kind of trigger asked for: the state is the same and no trigger's
  \<^verbatim>\<open>checkExpression\<close> is called. Hence a page advance (\<^verbatim>\<open>doNextPage\<close>,
  \<^verbatim>\<open>nextPage\<close>) and a value mutation (\<^verbatim>\<open>setValue\<close>) of a completed survey leave
  it completed and add no trigger call to the trace.
\<close>

theorem C9_no_trigger_after_completion:
  "isCompleted s \<longrightarrow>
     checkTriggers E s key isOnNextPage = s
   \<and> isCompleted (doNextPage E s) \<and> triggerCalls (doNextPage E s) = triggerCalls s
   \<and> (\<forall>b s'. nextPage E s = Inr (b, s') \<longrightarrow> isCompleted s' \<and> triggerCalls s' = triggerCalls s)
   \<and> (\<forall>s'. setValue E s name v locNotification = Inr s' \<longrightarrow>
         isCompleted s' \<and> triggerCalls s' = triggerCalls s)"
proof
  assume c: "isCompleted s"
  then have a: "settled (triggerCalls s) s" by (simp add: settled_def)
  show "checkTriggers E s key isOnNextPage = s
   \<and> isCompleted (doNextPage E s) \<and> triggerCalls (doNextPage E s) = triggerCalls s
   \<and> (\<forall>b s'. nextPage E s = Inr (b, s') \<longrightarrow> isCompleted s' \<and> triggerCalls s' = triggerCalls s)
   \<and> (\<forall>s'. setValue E s name v locNotification = Inr s' \<longrightarrow>
         isCompleted s' \<and> triggerCalls s' = triggerCalls s)"
    using checkTriggers_completed [OF c] settled_doNextPage [OF a, of E]
      settled_nextPage [of E s _ _ "triggerCalls s", OF _ a]
      settled_setValue [of E s name v locNotification _ "triggerCalls s", OF _ a]
    by (auto simp: settled_def)
qed

theorem C9_no_trigger_after_completion_witness:
  "checkTriggers exampleCollaborators (exampleSurvey\<lparr>isCompleted := True\<rparr>)
     [''q1'' \<mapsto> JNum (Fin 7)] False = exampleSurvey\<lparr>isCompleted := True\<rparr>
   \<and> (\<exists>s'. setValue exampleCollaborators (exampleSurvey\<lparr>isCompleted := True\<rparr>) ''q1''
               (JNum (Fin 7)) False = Inr s'
           \<and> valuesHash s' ''q1'' = Some (JNum (Fin 7)) \<and> triggerCalls s' = [])
   \<and> triggerCalls (doNextPage exampleCollaborators (exampleSurvey\<lparr>isCompleted := True\<rparr>)) = []"
proof -
  let ?s = "exampleSurvey\<lparr>isCompleted := True\<rparr>"
  have c: "isCompleted ?s" by simp
  have t: "triggerCalls ?s = []" by (simp add: triggerCalls_def exampleSurvey_def)
  obtain s' where r: "setValue exampleCollaborators ?s ''q1'' (JNum (Fin 7)) False = Inr s'"
    and v: "valuesHash s' ''q1'' = Some (JNum (Fin 7))"
    by (simp add: setValue_def exampleCollaborators_def exampleSurvey_def questionOnValueChanging_def
      isValueEqual_def getValue_def specHelpers_def spec_isValueEmpty_def updateQuestionValue_def
      checkTriggers_def logEvent_def runConditions_def
      notifyQuestionOnValueChanged_def tryGoNextPageAutomatic_def Let_def upt_rec)
  from C9_no_trigger_after_completion [of ?s exampleCollaborators "[''q1'' \<mapsto> JNum (Fin 7)]" False
      "''q1''" "JNum (Fin 7)" False] c r t v
  show ?thesis by auto
qed

section \<open>The completion callback of the validation on the server\<close>

lemma setIsValidatingOnServer_eq: "setIsValidatingOnServer s val = s\<lparr>isValidatingOnServer := val\<rparr>"
  by (simp add: setIsValidatingOnServer_def)

lemma addError_absent: "name \<notin> q_name ` set qs \<Longrightarrow> addError name err qs = qs"
  by (induction qs) auto

lemma addError_names: "map q_name (addError name err qs) = map q_name qs"
  by (induction qs) auto

lemma getQuestionByName_None:
  "(getQuestionByName s name = None) = (name \<notin> q_name ` set (questions s))"
  by (auto simp: getQuestionByName_def find_None_iff)

lemma addErrors_Cons:
  "addErrors ((name, msg) # errors) qs = addErrors errors (addError name (CustomError msg) qs)"
  by (simp add: addErrors_def)

lemma addErrors_names: "map q_name (addErrors errors qs) = map q_name qs"
proof (induction errors arbitrary: qs)
  case Nil
  then show ?case by (simp add: addErrors_def)
next
  case (Cons e errors)
  obtain name msg where e: "e = (name, msg)" by (cases e)
  show ?case using Cons.IH [of "addError name (CustomError msg) qs"]
    by (simp add: e addErrors_Cons addError_names)
qed

lemma processErrors_fold:
  "foldl (\<lambda>(hasErrors, st) (name, msg).
              case getQuestionByName st name of
                None \<Rightarrow> (hasErrors, st)
              | Some q \<Rightarrow> (True, st\<lparr>questions := addError name (CustomError msg) (questions st)\<rparr>))
       (h, s) errors
   = (h \<or> (\<exists>(name, msg)\<in>set errors. name \<in> q_name ` set (questions s)),
      s\<lparr>questions := addErrors errors (questions s)\<rparr>)"
proof (induction errors arbitrary: h s)
  case Nil
  then show ?case by (simp add: addErrors_def)
next
  case (Cons e errors)
  obtain name msg where e: "e = (name, msg)" by (cases e)
  let ?qs = "addError name (CustomError msg) (questions s)"
  have names: "q_name ` set ?qs = q_name ` set (questions s)"
    using addError_names [of name "CustomError msg" "questions s"]
    by (metis list.set_map)
  show ?case
  proof (cases "getQuestionByName s name")
    case None
    then have a: "name \<notin> q_name ` set (questions s)" by (simp add: getQuestionByName_None)
    then have "?qs = questions s" by (rule addError_absent)
    with None a Cons.IH [of h s] show ?thesis by (simp add: e addErrors_Cons)
  next
    case (Some q)
    then have a: "name \<in> q_name ` set (questions s)"
      using getQuestionByName_None [of s name] by simp
    with Some names Cons.IH [of True "s\<lparr>questions := ?qs\<rparr>"] show ?thesis
      by (simp add: e addErrors_Cons)
  qed
qed

lemma processErrors_eq:
  "processErrors s errors =
     ((\<exists>(name, msg)\<in>set errors. name \<in> q_name ` set (questions s)),
      s\<lparr>questions := addErrors errors (questions s)\<rparr>)"
  by (simp add: processErrors_def processErrors_fold)

lemma find_addError:
  "find (\<lambda>q. q_name q = n) (addError m err qs) =
     (if m = n then map_option (\<lambda>q. q\<lparr>q_errors := q_errors q @ [err]\<rparr>) (find (\<lambda>q. q_name q = n) qs)
      else find (\<lambda>q. q_name q = n) qs)"
  by (induction qs) auto

lemma find_addErrors:
  "find (\<lambda>q. q_name q = n) (addErrors errors qs) =
     map_option (\<lambda>q. q\<lparr>q_errors := q_errors q @ [CustomError msg. (m, msg) \<leftarrow> errors, m = n]\<rparr>)
       (find (\<lambda>q. q_name q = n) qs)"
proof (induction errors arbitrary: qs)
  case Nil
  then show ?case by (simp add: addErrors_def option.map_ident)
next
  case (Cons e errors)
  obtain m msg where e: "e = (m, msg)" by (cases e)
  show ?case
    using Cons.IH [of "addError m (CustomError msg) qs"]
    by (simp add: e addErrors_Cons find_addError option.map_comp comp_def)
qed

lemma completeServerValidation_errors:
  assumes "\<exists>(name, msg)\<in>set errors. name \<in> q_name ` set (questions s)"
  shows "completeServerValidation E s errors =
           s\<lparr>isValidatingOnServer := False, questions := addErrors errors (questions s)\<rparr>"
proof -
  let ?s0 = "s\<lparr>isValidatingOnServer := False\<rparr>"
  have "processErrors ?s0 errors = (True, ?s0\<lparr>questions := addErrors errors (questions ?s0)\<rparr>)"
    using assms by (simp add: processErrors_eq)
  then show ?thesis
    by (simp add: completeServerValidation_def setIsValidatingOnServer_eq)
qed

text \<open>
  Claim C8, as the code has it. \<^verbatim>\<open>completeServerValidation\<close> has no record of
  having run, so a second call of the completion callback does again what the first
  did. When the errors name at least one question of the survey, both calls leave the
  pending flag false, and the second call changes nothing but the questions: it
  neither advances the page nor completes the survey, but it is not a no-op, for it
  attaches every error again to its question.
\<close>

theorem C8_second_completion_call:
  "(\<exists>(name, msg)\<in>set errors. getQuestionByName s name \<noteq> None) \<longrightarrow>
     (let s1 = completeServerValidation E s errors;
          s2 = completeServerValidation E s1 errors
      in isValidatingOnServer s1 = False \<and> isValidatingOnServer s2 = False
         \<and> s2 = s1\<lparr>questions := questions s2\<rparr>
         \<and> (\<forall>n. getQuestionByName s2 n =
                  map_option
                    (\<lambda>q. q\<lparr>q_errors := q_errors q @ [CustomError msg. (m, msg) \<leftarrow> errors, m = n]\<rparr>)
                    (getQuestionByName s1 n)))"
proof
  assume "\<exists>(name, msg)\<in>set errors. getQuestionByName s name \<noteq> None"
  then have a: "\<exists>(name, msg)\<in>set errors. name \<in> q_name ` set (questions s)"
    by (simp add: getQuestionByName_None)
  let ?s1 = "s\<lparr>isValidatingOnServer := False, questions := addErrors errors (questions s)\<rparr>"
  have s1: "completeServerValidation E s errors = ?s1"
    by (rule completeServerValidation_errors [OF a])
  have "map q_name (questions ?s1) = map q_name (questions s)"
    by (simp add: addErrors_names)
  then have "set (map q_name (questions ?s1)) = set (map q_name (questions s))" by (rule arg_cong)
  then have "q_name ` set (questions ?s1) = q_name ` set (questions s)" by (simp only: set_map)
  with a have b: "\<exists>(name, msg)\<in>set errors. name \<in> q_name ` set (questions ?s1)" by simp
  have s2: "completeServerValidation E ?s1 errors =
      ?s1\<lparr>isValidatingOnServer := False, questions := addErrors errors (questions ?s1)\<rparr>"
    by (rule completeServerValidation_errors [OF b])
  have q: "find (\<lambda>q. q_name q = n) (addErrors errors (addErrors errors (questions s))) =
      map_option
        (\<lambda>q. q\<lparr>q_errors := q_errors q @ [CustomError msg. (m, msg) \<leftarrow> errors, m = n]\<rparr>)
        (find (\<lambda>q. q_name q = n) (addErrors errors (questions s)))" for n
    by (rule find_addErrors)
  show "let s1 = completeServerValidation E s errors;
          s2 = completeServerValidation E s1 errors
      in isValidatingOnServer s1 = False \<and> isValidatingOnServer s2 = False
         \<and> s2 = s1\<lparr>questions := questions s2\<rparr>
         \<and> (\<forall>n. getQuestionByName s2 n =
                  map_option
                    (\<lambda>q. q\<lparr>q_errors := q_errors q @ [CustomError msg. (m, msg) \<leftarrow> errors, m = n]\<rparr>)
                    (getQuestionByName s1 n))"
    unfolding s1 Let_def s2 getQuestionByName_def
    using q by simp
qed

theorem C8_second_completion_call_witness:
  "isValidatingOnServer (completeServerValidation exampleCollaborators
       (completeServerValidation exampleCollaborators exampleSurvey [(''q1'', ''bad'')])
       [(''q1'', ''bad'')]) = False
   \<and> getQuestionByName (completeServerValidation exampleCollaborators
       (completeServerValidation exampleCollaborators exampleSurvey [(''q1'', ''bad'')])
       [(''q1'', ''bad'')]) ''q1''
     = Some \<lparr>q_name = ''q1'', q_valueName = ''q1'', q_page = ''page1'', q_visible = True,
              q_hasInput = True, q_supportGoNextPageAutomatic = False,
              q_value = JNum (Fin 5), q_errors = [CustomError ''bad'', CustomError ''bad'']\<rparr>"
proof -
  have h: "\<exists>(name, msg)\<in>set [(''q1'', ''bad'')]. getQuestionByName exampleSurvey name \<noteq> None"
    by (simp add: getQuestionByName_def exampleSurvey_def)
  have e1: "getQuestionByName
      (completeServerValidation exampleCollaborators exampleSurvey [(''q1'', ''bad'')]) ''q1''
      = Some \<lparr>q_name = ''q1'', q_valueName = ''q1'', q_page = ''page1'', q_visible = True,
                    q_hasInput = True, q_supportGoNextPageAutomatic = False,
                    q_value = JNum (Fin 5), q_errors = [CustomError ''bad'']\<rparr>"
    by (simp add: completeServerValidation_def setIsValidatingOnServer_def processErrors_def
        getQuestionByName_def exampleSurvey_def Let_def)
  from C8_second_completion_call [of "[(''q1'', ''bad'')]" exampleSurvey exampleCollaborators] h
  have "isValidatingOnServer (completeServerValidation exampleCollaborators
       (completeServerValidation exampleCollaborators exampleSurvey [(''q1'', ''bad'')])
       [(''q1'', ''bad'')]) = False
     \<and> getQuestionByName (completeServerValidation exampleCollaborators
       (completeServerValidation exampleCollaborators exampleSurvey [(''q1'', ''bad'')])
       [(''q1'', ''bad'')]) ''q1''
       = map_option (\<lambda>q. q\<lparr>q_errors := q_errors q @
            [CustomError msg. (m, msg) \<leftarrow> [(''q1'', ''bad'')], m = ''q1'']\<rparr>)
          (getQuestionByName
            (completeServerValidation exampleCollaborators exampleSurvey [(''q1'', ''bad'')]) ''q1'')"
    by (simp only: Let_def)
  then show ?thesis unfolding e1 by simp
qed

text \<open>
  The claim as the specification words it makes the second call a no-op. In the
  example survey a second call with the error for \<^verbatim>\<open>q1\<close> gives the question the
  error twice, and a second call with no error advances from the second page to the
  third.
\<close>

theorem C8_second_completion_call_counterexample:
  "completeServerValidation exampleCollaborators
     (completeServerValidation exampleCollaborators exampleSurvey [(''q1'', ''bad'')]) [(''q1'', ''bad'')]
   \<noteq> completeServerValidation exampleCollaborators exampleSurvey [(''q1'', ''bad'')]
   \<and> map q_errors (questions (completeServerValidation exampleCollaborators exampleSurvey
         [(''q1'', ''bad'')])) = [[CustomError ''bad'']]
   \<and> map q_errors (questions (completeServerValidation exampleCollaborators
         (completeServerValidation exampleCollaborators exampleSurvey [(''q1'', ''bad'')])
         [(''q1'', ''bad'')])) = [[CustomError ''bad'', CustomError ''bad'']]
   \<and> currentPageValue (completeServerValidation exampleCollaborators exampleSurvey []) = Some ''page2''
   \<and> currentPageValue (completeServerValidation exampleCollaborators
         (completeServerValidation exampleCollaborators exampleSurvey []) []) = Some ''page3''"
proof -
  have e1: "completeServerValidation exampleCollaborators exampleSurvey [(''q1'', ''bad'')]
      = exampleSurvey\<lparr>isValidatingOnServer := False,
          questions := [\<lparr>q_name = ''q1'', q_valueName = ''q1'', q_page = ''page1'', q_visible = True,
                    q_hasInput = True, q_supportGoNextPageAutomatic = False,
                    q_value = JNum (Fin 5), q_errors = [CustomError ''bad'']\<rparr>]\<rparr>"
    by (simp add: completeServerValidation_def setIsValidatingOnServer_def processErrors_def
        getQuestionByName_def exampleSurvey_def Let_def)
  have e2: "completeServerValidation exampleCollaborators
      (exampleSurvey\<lparr>isValidatingOnServer := False,
          questions := [\<lparr>q_name = ''q1'', q_valueName = ''q1'', q_page = ''page1'', q_visible = True,
                    q_hasInput = True, q_supportGoNextPageAutomatic = False,
                    q_value = JNum (Fin 5), q_errors = [CustomError ''bad'']\<rparr>]\<rparr>) [(''q1'', ''bad'')]
      = exampleSurvey\<lparr>isValidatingOnServer := False,
          questions := [\<lparr>q_name = ''q1'', q_valueName = ''q1'', q_page = ''page1'', q_visible = True,
                    q_hasInput = True, q_supportGoNextPageAutomatic = False,
                    q_value = JNum (Fin 5), q_errors = [CustomError ''bad'', CustomError ''bad'']\<rparr>]\<rparr>"
    by (simp add: completeServerValidation_def setIsValidatingOnServer_def processErrors_def
        getQuestionByName_def exampleSurvey_def Let_def)
  have p1: "completeServerValidation exampleCollaborators exampleSurvey []
      = exampleSurvey\<lparr>isValidatingOnServer := False, conditionVersion := 1,
          currentPageValue := Some ''page2'',
          events := [OnCurrentPageChanged (Some ''page2'') (Some ''page1'')]\<rparr>"
    by (simp add: completeServerValidation_def setIsValidatingOnServer_def processErrors_def
        exampleSurvey_def exampleCollaborators_def Let_def isLastPage_def get_currentPage_def
        visiblePages_def pageIndexOf_def doNextPage_def checkOnPageTriggers_def
        getCurrentPageQuestions_def checkTriggers_def getFilteredValues_def logEvent_def
        set_currentPage_def arrayGet_def getValue_def specHelpers_def)
  have p2: "completeServerValidation exampleCollaborators
      (exampleSurvey\<lparr>isValidatingOnServer := False, conditionVersion := 1,
          currentPageValue := Some ''page2'',
          events := [OnCurrentPageChanged (Some ''page2'') (Some ''page1'')]\<rparr>) []
      = exampleSurvey\<lparr>isValidatingOnServer := False, conditionVersion := 2,
          currentPageValue := Some ''page3'',
          events := [OnCurrentPageChanged (Some ''page2'') (Some ''page1''),
                     OnCurrentPageChanged (Some ''page3'') (Some ''page2'')]\<rparr>"
    by (simp add: completeServerValidation_def setIsValidatingOnServer_def processErrors_def
        exampleSurvey_def exampleCollaborators_def Let_def isLastPage_def get_currentPage_def
        visiblePages_def pageIndexOf_def doNextPage_def checkOnPageTriggers_def
        getCurrentPageQuestions_def checkTriggers_def getFilteredValues_def logEvent_def
        set_currentPage_def arrayGet_def getValue_def specHelpers_def)
  show ?thesis
    unfolding e1 e2 p1 p2 by (simp add: exampleSurvey_def)
qed

end
